theory Spec2Isabelle
  imports Main
begin

section \<open>Python values handled by the two controllers\<close>

text \<open>
  The exporters and importers are external collaborators: they return JSON-like Python
  values (the result manifests) or raise. The controllers inspect these values with
  truthiness tests, \<^verbatim>\<open>isinstance\<close>, \<^verbatim>\<open>len\<close>, \<^verbatim>\<open>.get\<close>, \<^verbatim>\<open>.values()\<close> and \<^verbatim>\<open>sum\<close>,
  all of which are written out below together with the exceptions they raise on a value
  of the wrong shape. Numbers are integers: no controller decision depends on the
  numeric value of a count, only on whether it can be summed. A dictionary is an
  association list in insertion order; Python dictionaries have distinct keys, for which
  the first-match lookup \<open>map_of\<close> is the dictionary lookup.
\<close>

datatype pyval =
    PNone
  | PBool bool
  | PInt int
  | PStr string
  | PList "pyval list"
  | PDict "(string \<times> pyval) list"

datatype exn = AttributeError | TypeError | Raised string

type_synonym 'a result = "exn + 'a"

definition bind_exn :: "'a result \<Rightarrow> ('a \<Rightarrow> 'b result) \<Rightarrow> 'b result" where
  "bind_exn m f = (case m of Inl e \<Rightarrow> Inl e | Inr x \<Rightarrow> f x)"

fun truthy :: "pyval \<Rightarrow> bool" where
  "truthy PNone = False"
| "truthy (PBool b) = b"
| "truthy (PInt n) = (n \<noteq> 0)"
| "truthy (PStr s) = (s \<noteq> [])"
| "truthy (PList xs) = (xs \<noteq> [])"
| "truthy (PDict kvs) = (kvs \<noteq> [])"

fun is_list :: "pyval \<Rightarrow> bool" where
  "is_list (PList xs) = True"
| "is_list _ = False"

fun is_dict :: "pyval \<Rightarrow> bool" where
  "is_dict (PDict kvs) = True"
| "is_dict _ = False"

text \<open>\<^verbatim>\<open>for d in results\<close>: a list yields its entries, a dictionary its keys, a string
  its characters; anything else is not iterable.\<close>

fun py_iter :: "pyval \<Rightarrow> pyval list result" where
  "py_iter (PList xs) = Inr xs"
| "py_iter (PDict kvs) = Inr (map (\<lambda>kv. PStr (fst kv)) kvs)"
| "py_iter (PStr s) = Inr (map (\<lambda>c. PStr [c]) s)"
| "py_iter _ = Inl TypeError"

text \<open>\<^verbatim>\<open>d.get(key, default)\<close>: only a dictionary has the method.\<close>

fun py_get :: "pyval \<Rightarrow> string \<Rightarrow> pyval \<Rightarrow> pyval result" where
  "py_get (PDict kvs) k dflt = Inr (case map_of kvs k of None \<Rightarrow> dflt | Some v \<Rightarrow> v)"
| "py_get _ k dflt = Inl AttributeError"

text \<open>\<^verbatim>\<open>results.values()\<close>.\<close>

fun py_values :: "pyval \<Rightarrow> pyval list result" where
  "py_values (PDict kvs) = Inr (map snd kvs)"
| "py_values _ = Inl AttributeError"

text \<open>\<^verbatim>\<open>sum(d.get("status") == s for d in ds)\<close> and
  \<^verbatim>\<open>sum(1 for d in ds if d.get("status") == s)\<close>: the number of entries with the
  status, or the exception of the first entry without \<^verbatim>\<open>.get\<close>.\<close>

fun count_status :: "string \<Rightarrow> pyval list \<Rightarrow> nat result" where
  "count_status s [] = Inr 0"
| "count_status s (d # ds) =
     (case py_get d ''status'' PNone of
        Inl e \<Rightarrow> Inl e
      | Inr v \<Rightarrow>
          (case count_status s ds of
             Inl e \<Rightarrow> Inl e
           | Inr n \<Rightarrow> Inr (if v = PStr s then Suc n else n)))"

text \<open>\<^verbatim>\<open>sum(1 for p in ps if p.get("success"))\<close>.\<close>

fun count_success :: "pyval list \<Rightarrow> nat result" where
  "count_success [] = Inr 0"
| "count_success (p # ps) =
     (case py_get p ''success'' PNone of
        Inl e \<Rightarrow> Inl e
      | Inr v \<Rightarrow>
          (case count_success ps of
             Inl e \<Rightarrow> Inl e
           | Inr n \<Rightarrow> Inr (if truthy v then Suc n else n)))"

text \<open>The summands \<^verbatim>\<open>sum\<close> accepts when it starts from the integer 0.\<close>

fun as_number :: "pyval \<Rightarrow> int result" where
  "as_number (PInt n) = Inr n"
| "as_number (PBool b) = Inr (if b then 1 else 0)"
| "as_number _ = Inl TypeError"

text \<open>\<^verbatim>\<open>sum(p.get(key, 0) for p in ps)\<close>.\<close>

fun sum_field :: "string \<Rightarrow> pyval list \<Rightarrow> int result" where
  "sum_field k [] = Inr 0"
| "sum_field k (p # ps) =
     (case py_get p k (PInt 0) of
        Inl e \<Rightarrow> Inl e
      | Inr v \<Rightarrow>
          (case as_number v of
             Inl e \<Rightarrow> Inl e
           | Inr n \<Rightarrow>
               (case sum_field k ps of
                  Inl e \<Rightarrow> Inl e
                | Inr m \<Rightarrow> Inr (n + m))))"

text \<open>\<^verbatim>\<open>not args.base_url\<close>, \<^verbatim>\<open>not args.api_key\<close>: an option that was not given is
  \<^verbatim>\<open>None\<close>, and the empty string is false as well.\<close>

fun provided :: "string option \<Rightarrow> bool" where
  "provided None = False"
| "provided (Some s) = (s \<noteq> [])"

section \<open>What a run does\<close>

text \<open>
  A run is observed through the sequence of its effects, the two lists the controllers
  keep (\<^verbatim>\<open>successful_exports\<close>/\<^verbatim>\<open>successful_imports\<close> and
  \<^verbatim>\<open>failed_exports\<close>/\<^verbatim>\<open>failed_imports\<close>) and the exit code of the process: 0 when
  \<^verbatim>\<open>main\<close> returns, 1 after \<^verbatim>\<open>sys.exit(1)\<close>. The effects recorded are the calls of the
  exporters and importers (the only code that talks to the two platforms), the setup
  guide, the construction of the HTTP client, the operator prompts, reading and writing
  the result manifests, and the log records of level error and warning. Informational
  log records and the printed banners decide nothing and are left out. Creating the
  export directories and writing the result manifests succeed, and the operator gives an
  answer to each prompt. The exceptions of the collaborators are the ones
  \<^verbatim>\<open>except Exception\<close> catches.
\<close>

datatype level = ERROR | WARNING

datatype event =
    Call string
  | SetupGuide
  | Input string
  | Log level string
  | CreateClient
  | LoadResults
  | SaveResults string

record run =
  events :: "event list"
  successful :: "string list"
  failed :: "string list"
  exit_code :: nat

definition start :: "event list \<Rightarrow> run" where
  "start evs = \<lparr>events = evs, successful = [], failed = [], exit_code = 0\<rparr>"

definition emit :: "event list \<Rightarrow> run \<Rightarrow> run" where
  "emit evs s = s\<lparr>events := events s @ evs\<rparr>"

definition succeed :: "string \<Rightarrow> run \<Rightarrow> run" where
  "succeed name s = s\<lparr>successful := successful s @ [name]\<rparr>"

definition fail :: "string \<Rightarrow> run \<Rightarrow> run" where
  "fail name s = s\<lparr>failed := failed s @ [name]\<rparr>"

text \<open>The end of both \<^verbatim>\<open>main\<close> functions: \<^verbatim>\<open>if failed: sys.exit(1)\<close>.\<close>

definition summary :: "run \<Rightarrow> run" where
  "summary s = (if failed s \<noteq> [] then s\<lparr>exit_code := 1\<rparr> else s)"

fun calls_of :: "event list \<Rightarrow> string list" where
  "calls_of [] = []"
| "calls_of (Call name # evs) = name # calls_of evs"
| "calls_of (ev # evs) = calls_of evs"

definition calls :: "run \<Rightarrow> string list" where
  "calls r = calls_of (events r)"

section \<open>The export controller (export\_all\_projects.py)\<close>

record export_args =
  base_url :: "string option"
  exp_all :: bool
  exp_datasets :: bool
  exp_prompts :: bool
  exp_projects :: bool
  exp_traces :: bool
  exp_annotations :: bool
  exp_evaluations :: bool

text \<open>What each exporter does when it is called: it raises, or returns its results.\<close>

record export_env =
  export_datasets :: "pyval result"
  export_prompts :: "pyval result"
  export_traces :: "pyval result"
  export_annotations :: "pyval result"
  export_evaluations :: "pyval result"

text \<open>The body of the \<^verbatim>\<open>try\<close> of steps 1 and 2 after the exporter returned:
  \<open>Inr True\<close> is the branch of \<^verbatim>\<open>if results:\<close>, \<open>Inr False\<close> its \<^verbatim>\<open>else\<close>, and
  \<open>Inl e\<close> an exception raised while counting.\<close>

definition export_list_body :: "pyval \<Rightarrow> bool result" where
  "export_list_body results =
     (if truthy results then
        bind_exn (py_iter results) (\<lambda>ds.
        bind_exn (count_status ''exported'' ds) (\<lambda>export_count. Inr True))
      else Inr False)"

text \<open>The same for steps 3 to 5, whose results are keyed by project name and carry a
  count under \<open>count_key\<close>.\<close>

definition export_dict_body :: "string \<Rightarrow> pyval \<Rightarrow> bool result" where
  "export_dict_body count_key results =
     (if truthy results then
        bind_exn (py_values results) (\<lambda>ps.
        bind_exn (count_status ''exported'' ps) (\<lambda>success_count.
        bind_exn (sum_field count_key ps) (\<lambda>total. Inr True)))
      else Inr False)"

text \<open>One step: the exporter is called inside \<^verbatim>\<open>try\<close>; an exception of the call or of
  the counting is logged and the step recorded as failed.\<close>

definition export_step ::
  "string \<Rightarrow> string \<Rightarrow> pyval result \<Rightarrow> (pyval \<Rightarrow> bool result) \<Rightarrow> run \<Rightarrow> run" where
  "export_step name failure_message exporter body s =
     (case bind_exn exporter body of
        Inr True \<Rightarrow> succeed name (emit [Call name] s)
      | Inr False \<Rightarrow> fail name (emit [Call name, Log ERROR failure_message] s)
      | Inl e \<Rightarrow> fail name (emit [Call name, Log ERROR (''Error exporting '' @ name)] s))"

definition export_selected :: "export_args \<Rightarrow> bool" where
  "export_selected args =
     (exp_all args \<or> exp_datasets args \<or> exp_prompts args \<or> exp_projects args
      \<or> exp_traces args \<or> exp_annotations args \<or> exp_evaluations args)"

definition export_main :: "export_args \<Rightarrow> export_env \<Rightarrow> run" where
  "export_main args env =
     (if \<not> provided (base_url args) then
        start [Log ERROR ''No Phoenix Endpoint URL provided'']
      else if \<not> export_selected args then
        start [CreateClient, Log ERROR ''No export type selected'']
      else
        let s0 = start [CreateClient];
            s1 = (if exp_all args \<or> exp_datasets args
                  then export_step ''datasets'' ''Failed to export datasets''
                         (export_datasets env) export_list_body s0
                  else s0);
            s2 = (if exp_all args \<or> exp_prompts args
                  then export_step ''prompts'' ''Failed to export prompts''
                         (export_prompts env) export_list_body s1
                  else s1);
            s3 = (if exp_all args \<or> exp_traces args \<or> exp_projects args
                  then export_step ''traces'' ''Failed to export traces''
                         (export_traces env) (export_dict_body ''trace_count'') s2
                  else s2);
            s4 = (if exp_all args \<or> exp_annotations args
                  then export_step ''annotations'' ''No annotations were exported''
                         (export_annotations env) (export_dict_body ''annotation_count'') s3
                  else s3);
            s5 = (if exp_all args \<or> exp_evaluations args
                  then export_step ''evaluations'' ''Failed to export evaluations''
                         (export_evaluations env) (export_dict_body ''evaluation_count'') s4
                  else s4)
        in summary s5)"

section \<open>The import controller (import\_to\_arize.py)\<close>

record import_args =
  api_key :: "string option"
  space_id :: "string option"
  imp_all :: bool
  imp_datasets :: bool
  imp_traces :: bool
  imp_annotations :: bool
  imp_evaluations :: bool
  imp_prompts :: bool
  imp_setup_annotations :: bool

text \<open>The trace result manifest as it is on disk once the traces importer has raised:
  \<^verbatim>\<open>results_path.exists()\<close> and \<^verbatim>\<open>json.load\<close>.\<close>

datatype results_file = Missing | Unreadable | Loadable pyval

text \<open>What the collaborators do when they are called, what is on disk, and what the
  operator types at the two prompts.\<close>

record import_env =
  import_datasets :: "pyval result"
  import_prompts :: "pyval result"
  import_traces :: "pyval result"
  import_evaluations :: "pyval result"
  import_annotations :: "pyval result"
  setup_annotations_main :: "unit result"
  trace_results_file :: results_file
  ingestion_answer :: string
  annotation_answer :: string

text \<open>\<^verbatim>\<open>len\<close>, \<^verbatim>\<open>key in result\<close>, \<^verbatim>\<open>result[key]\<close> and \<^verbatim>\<open>result.items()\<close>.\<close>

fun py_len :: "pyval \<Rightarrow> nat result" where
  "py_len (PList xs) = Inr (length xs)"
| "py_len (PDict kvs) = Inr (length kvs)"
| "py_len (PStr s) = Inr (length s)"
| "py_len _ = Inl TypeError"

fun is_substring :: "string \<Rightarrow> string \<Rightarrow> bool" where
  "is_substring k [] = (k = [])"
| "is_substring k (c # s) = (take (length k) (c # s) = k \<or> is_substring k s)"

fun py_contains :: "pyval \<Rightarrow> string \<Rightarrow> bool result" where
  "py_contains (PDict kvs) k = Inr (map_of kvs k \<noteq> None)"
| "py_contains (PList xs) k = Inr (PStr k \<in> set xs)"
| "py_contains (PStr s) k = Inr (is_substring k s)"
| "py_contains _ k = Inl TypeError"

fun py_index :: "pyval \<Rightarrow> string \<Rightarrow> pyval result" where
  "py_index (PDict kvs) k = (case map_of kvs k of None \<Rightarrow> Inl (Raised ''KeyError'') | Some v \<Rightarrow> Inr v)"
| "py_index _ k = Inl TypeError"

fun py_items :: "pyval \<Rightarrow> (string \<times> pyval) list result" where
  "py_items (PDict kvs) = Inr kvs"
| "py_items _ = Inl AttributeError"

text \<open>\<^verbatim>\<open>input(...).lower()\<close>. Strings are byte strings; the ASCII capitals are the only
  bytes that change, which is all that matters for the comparison with \<^verbatim>\<open>"yes"\<close> and
  \<^verbatim>\<open>"y"\<close>.\<close>

definition lower_char :: "char \<Rightarrow> char" where
  "lower_char c =
     (case map_of (zip ''ABCDEFGHIJKLMNOPQRSTUVWXYZ'' ''abcdefghijklmnopqrstuvwxyz'') c of
        None \<Rightarrow> c
      | Some l \<Rightarrow> l)"

definition lower :: "string \<Rightarrow> string" where
  "lower s = map lower_char s"

text \<open>\<^verbatim>\<open>isinstance(result, list) and len(result) > 0\<close>, with the short circuit.\<close>

definition nonempty_list :: "pyval \<Rightarrow> bool result" where
  "nonempty_list result =
     (if is_list result then bind_exn (py_len result) (\<lambda>n. Inr (0 < n)) else Inr False)"

text \<open>The body of the \<^verbatim>\<open>try\<close> of \<^verbatim>\<open>import_datasets_wrapper\<close> and of
  \<^verbatim>\<open>import_prompts_wrapper\<close> after the importer returned: the value returned and the
  effects, or an exception.\<close>

definition import_list_body :: "string \<Rightarrow> pyval \<Rightarrow> (bool \<times> event list) result" where
  "import_list_body name result =
     bind_exn (nonempty_list result) (\<lambda>some.
       if some then
         bind_exn (py_iter result) (\<lambda>ds.
         bind_exn (count_status ''imported'' ds) (\<lambda>new_count.
         bind_exn (count_status ''already_exists'' ds) (\<lambda>existing_count.
           Inr (0 < new_count + existing_count, [SaveResults name]))))
       else Inr (False, [Log ERROR (''No '' @ name @ '' were imported'')]))"

definition import_datasets_wrapper :: "import_env \<Rightarrow> bool \<times> event list" where
  "import_datasets_wrapper env =
     (case bind_exn (import_datasets env) (import_list_body ''datasets'') of
        Inr (ok, evs) \<Rightarrow> (ok, Call ''datasets'' # evs)
      | Inl e \<Rightarrow> (False, [Call ''datasets'', Log ERROR ''Error importing datasets'']))"

definition import_prompts_wrapper :: "import_env \<Rightarrow> bool \<times> event list" where
  "import_prompts_wrapper env =
     (case bind_exn (import_prompts env) (import_list_body ''prompts'') of
        Inr (ok, evs) \<Rightarrow> (ok, Call ''prompts'' # evs)
      | Inl e \<Rightarrow> (False, [Call ''prompts'', Log ERROR ''Error importing prompts'']))"

text \<open>The loop of \<^verbatim>\<open>import_traces_wrapper\<close> over \<^verbatim>\<open>result.items()\<close>, with its two
  counters.\<close>

fun count_projects :: "(string \<times> pyval) list \<Rightarrow> nat \<Rightarrow> nat \<Rightarrow> nat \<times> nat" where
  "count_projects [] success_count total_processed = (success_count, total_processed)"
| "count_projects ((key, val) # items) success_count total_processed =
     (if key \<in> set [''projects'', ''timestamp''] then
        count_projects items success_count total_processed
      else
        (case val of
           PDict kvs \<Rightarrow>
             (let status = (case map_of kvs ''status'' of None \<Rightarrow> PStr [] | Some v \<Rightarrow> v)
              in count_projects items
                   (if status \<in> set [PStr ''imported'', PStr ''skipped'']
                    then Suc success_count else success_count)
                   (Suc total_processed))
         | _ \<Rightarrow> count_projects items success_count total_processed))"

text \<open>The inner \<^verbatim>\<open>try\<close>: the importer's result, or after an exception the manifest on
  disk; \<open>None\<close> is the \<^verbatim>\<open>return False\<close> of the handler.\<close>

definition traces_result :: "import_env \<Rightarrow> pyval option \<times> event list" where
  "traces_result env =
     (case import_traces env of
        Inr result \<Rightarrow> (Some result, [Call ''traces''])
      | Inl import_error \<Rightarrow>
          (case trace_results_file env of
             Loadable result \<Rightarrow>
               (Some result,
                [Call ''traces'', Log ERROR ''Error in import_traces.import_traces()'',
                 LoadResults])
           | Unreadable \<Rightarrow>
               (None,
                [Call ''traces'', Log ERROR ''Error in import_traces.import_traces()'',
                 LoadResults, Log ERROR ''Failed to load existing results''])
           | Missing \<Rightarrow>
               (None,
                [Call ''traces'', Log ERROR ''Error in import_traces.import_traces()''])))"

definition nonempty_dict :: "pyval \<Rightarrow> bool result" where
  "nonempty_dict result =
     (if truthy result \<and> is_dict result
      then bind_exn (py_len result) (\<lambda>n. Inr (0 < n)) else Inr False)"

definition traces_body :: "pyval \<Rightarrow> (bool \<times> event list) result" where
  "traces_body result =
     bind_exn (nonempty_dict result) (\<lambda>some.
       if some then
         bind_exn (py_items result) (\<lambda>items.
           case count_projects items 0 0 of
             (success_count, total_processed) \<Rightarrow>
               Inr (0 < success_count, [SaveResults ''traces'']))
       else Inr (False, [Log ERROR ''No traces were imported'']))"

definition import_traces_wrapper :: "import_env \<Rightarrow> bool \<times> event list" where
  "import_traces_wrapper env =
     (case traces_result env of
        (None, evs) \<Rightarrow> (False, evs)
      | (Some result, evs) \<Rightarrow>
          (case traces_body result of
             Inr (ok, evs') \<Rightarrow> (ok, evs @ evs')
           | Inl e \<Rightarrow> (False, evs @ [Log ERROR ''Error importing traces''])))"

text \<open>\<^verbatim>\<open>result and isinstance(result, dict) and "projects" in result\<close>.\<close>

definition has_projects :: "pyval \<Rightarrow> bool result" where
  "has_projects result =
     (if truthy result \<and> is_dict result then py_contains result ''projects'' else Inr False)"

text \<open>The body of the \<^verbatim>\<open>try\<close> of \<^verbatim>\<open>import_annotations_wrapper\<close> and of
  \<^verbatim>\<open>import_evaluations_wrapper\<close> after the importer returned.\<close>

definition import_projects_body ::
  "string \<Rightarrow> string \<Rightarrow> pyval \<Rightarrow> (bool \<times> event list) result" where
  "import_projects_body name count_key result =
     bind_exn (has_projects result) (\<lambda>some.
       if some then
         bind_exn (py_index result ''projects'') (\<lambda>projects.
         bind_exn (py_values projects) (\<lambda>ps.
         bind_exn (count_success ps) (\<lambda>total_success.
         bind_exn (sum_field count_key ps) (\<lambda>total.
           Inr (0 < total_success, [SaveResults name])))))
       else Inr (False, [Log ERROR (''No '' @ name @ '' were imported'')]))"

definition import_annotations_wrapper :: "import_env \<Rightarrow> bool \<times> event list" where
  "import_annotations_wrapper env =
     (case bind_exn (import_annotations env)
             (import_projects_body ''annotations'' ''annotations_count'') of
        Inr (ok, evs) \<Rightarrow> (ok, Call ''annotations'' # evs)
      | Inl e \<Rightarrow> (False, [Call ''annotations'', Log ERROR ''Error importing annotations'']))"

definition import_evaluations_wrapper :: "import_env \<Rightarrow> bool \<times> event list" where
  "import_evaluations_wrapper env =
     (case bind_exn (import_evaluations env)
             (import_projects_body ''evaluations'' ''evaluations_count'') of
        Inr (ok, evs) \<Rightarrow> (ok, Call ''evaluations'' # evs)
      | Inl e \<Rightarrow> (False, [Call ''evaluations'', Log ERROR ''Error importing evaluations'']))"

definition setup_annotations_wrapper :: "import_env \<Rightarrow> bool \<times> event list" where
  "setup_annotations_wrapper env =
     (case setup_annotations_main env of
        Inr u \<Rightarrow> (True, [SetupGuide])
      | Inl e \<Rightarrow> (False, [SetupGuide, Log ERROR ''Error setting up annotations'']))"

text \<open>\<^verbatim>\<open>if wrapper(args): successful_imports.append(name) else: failed_imports.append(name)\<close>.\<close>

definition import_step :: "string \<Rightarrow> bool \<times> event list \<Rightarrow> run \<Rightarrow> run" where
  "import_step name wrapper s =
     (case wrapper of
        (ok, evs) \<Rightarrow> if ok then succeed name (emit evs s) else fail name (emit evs s))"

text \<open>Step 3.5: the pause for trace ingestion. Declining rewrites the arguments.\<close>

definition ingestion_gate :: "import_args \<Rightarrow> import_env \<Rightarrow> run \<Rightarrow> import_args \<times> run" where
  "ingestion_gate args env s =
     (let traces_imported = (''traces'' \<in> set (successful s));
          evaluations_requested = (imp_all args \<or> imp_evaluations args)
      in if traces_imported \<and> evaluations_requested then
           (let confirmation = lower (ingestion_answer env)
            in if confirmation \<notin> set [''yes'', ''y''] then
                 (args\<lparr>imp_evaluations := False, imp_all := False\<rparr>,
                  emit [Input ''Are all traces fully visible in the Arize dashboard?'',
                        Log WARNING ''Evaluation import skipped'',
                        Log WARNING ''You can run the import again with --evaluations''] s)
               else (args, emit [Input ''Are all traces fully visible in the Arize dashboard?''] s))
         else (args, s))"

text \<open>Steps 5 to 7, and the \<^verbatim>\<open>elif\<close> for \<^verbatim>\<open>--setup-annotations\<close> alone.\<close>

definition annotations_step :: "import_args \<Rightarrow> import_env \<Rightarrow> run \<Rightarrow> run" where
  "annotations_step args env s =
     (if imp_all args \<or> imp_annotations args then
        (case setup_annotations_wrapper env of
           (setup_success, evs) \<Rightarrow>
             (let s1 = (if setup_success then emit evs s
                        else fail ''annotation setup''
                               (emit (evs @ [Log ERROR ''Annotation setup guide failed'']) s));
                  s2 = emit [Input ''Have you added all annotation configurations in Arize UI?''] s1;
                  confirmation = lower (annotation_answer env)
              in if confirmation \<in> set [''yes'', ''y''] then
                   import_step ''annotations'' (import_annotations_wrapper env) s2
                 else
                   emit [Log WARNING ''Annotation import skipped'',
                         Log WARNING ''You can run the import again with --annotations''] s2))
      else if imp_setup_annotations args then
        import_step ''annotation setup'' (setup_annotations_wrapper env) s
      else s)"

definition import_selected :: "import_args \<Rightarrow> bool" where
  "import_selected args =
     (imp_all args \<or> imp_datasets args \<or> imp_traces args \<or> imp_annotations args
      \<or> imp_evaluations args \<or> imp_prompts args \<or> imp_setup_annotations args)"

definition import_main :: "import_args \<Rightarrow> import_env \<Rightarrow> run" where
  "import_main args env =
     (if \<not> provided (api_key args) then
        start [Log ERROR ''No Arize API key provided'']
      else if \<not> provided (space_id args) then
        start [Log ERROR ''No Arize Space ID provided'']
      else if \<not> import_selected args then
        start [Log ERROR ''No import type selected'']
      else
        let s0 = start [];
            s1 = (if imp_all args \<or> imp_datasets args
                  then import_step ''datasets'' (import_datasets_wrapper env) s0 else s0);
            s2 = (if imp_all args \<or> imp_prompts args
                  then import_step ''prompts'' (import_prompts_wrapper env) s1 else s1);
            s3 = (if imp_all args \<or> imp_traces args
                  then import_step ''traces'' (import_traces_wrapper env) s2 else s2)
        in case ingestion_gate args env s3 of
             (args', s4) \<Rightarrow>
               (let s5 = (if imp_all args' \<or> imp_evaluations args'
                          then import_step ''evaluations'' (import_evaluations_wrapper env) s4
                          else s4);
                    s6 = annotations_step args' env s5
                in summary s6))"

section \<open>Vocabulary of the properties\<close>

text \<open>The stages a run requests, in the order of the pipeline. \<^verbatim>\<open>--projects\<close> selects the
  traces step of the export; on the import side the setup guide belongs to
  \<^verbatim>\<open>--annotations\<close> and to \<^verbatim>\<open>--setup-annotations\<close>.\<close>

definition export_requested :: "export_args \<Rightarrow> string list" where
  "export_requested args =
     (if exp_all args \<or> exp_datasets args then [''datasets''] else []) @
     (if exp_all args \<or> exp_prompts args then [''prompts''] else []) @
     (if exp_all args \<or> exp_traces args \<or> exp_projects args then [''traces''] else []) @
     (if exp_all args \<or> exp_annotations args then [''annotations''] else []) @
     (if exp_all args \<or> exp_evaluations args then [''evaluations''] else [])"

definition import_requested :: "import_args \<Rightarrow> string list" where
  "import_requested args =
     (if imp_all args \<or> imp_datasets args then [''datasets''] else []) @
     (if imp_all args \<or> imp_prompts args then [''prompts''] else []) @
     (if imp_all args \<or> imp_traces args then [''traces''] else []) @
     (if imp_all args \<or> imp_evaluations args then [''evaluations''] else []) @
     (if imp_all args \<or> imp_annotations args \<or> imp_setup_annotations args
      then [''annotation setup''] else []) @
     (if imp_all args \<or> imp_annotations args then [''annotations''] else [])"

text \<open>The importers a run requests: the entity stages without the setup guide.\<close>

definition import_entities :: "import_args \<Rightarrow> string list" where
  "import_entities args = filter (\<lambda>name. name \<noteq> ''annotation setup'') (import_requested args)"

definition exporter_of :: "export_env \<Rightarrow> string \<Rightarrow> pyval result" where
  "exporter_of env name =
     (if name = ''datasets'' then export_datasets env
      else if name = ''prompts'' then export_prompts env
      else if name = ''traces'' then export_traces env
      else if name = ''annotations'' then export_annotations env
      else export_evaluations env)"

definition importer_of :: "import_env \<Rightarrow> string \<Rightarrow> pyval result" where
  "importer_of env name =
     (if name = ''datasets'' then import_datasets env
      else if name = ''prompts'' then import_prompts env
      else if name = ''traces'' then import_traces env
      else if name = ''evaluations'' then import_evaluations env
      else import_annotations env)"

text \<open>The body of the \<^verbatim>\<open>try\<close> of each export step, and whether the step takes the
  branch that appends to \<^verbatim>\<open>successful_exports\<close>.\<close>

definition body_of :: "string \<Rightarrow> pyval \<Rightarrow> bool result" where
  "body_of name =
     (if name = ''datasets'' \<or> name = ''prompts'' then export_list_body
      else if name = ''traces'' then export_dict_body ''trace_count''
      else if name = ''annotations'' then export_dict_body ''annotation_count''
      else export_dict_body ''evaluation_count'')"

definition export_ok :: "export_env \<Rightarrow> string \<Rightarrow> bool" where
  "export_ok env name = (bind_exn (exporter_of env name) (body_of name) = Inr True)"

definition raises :: "'a result \<Rightarrow> bool" where
  "raises m = (case m of Inl e \<Rightarrow> True | Inr v \<Rightarrow> False)"

text \<open>The operator's answer counts as a confirmation when it is yes or y in any
  capitalisation.\<close>

definition confirms :: "string \<Rightarrow> bool" where
  "confirms answer = (lower answer \<in> set [''yes'', ''y''])"

text \<open>The traces stage ran and succeeded; the ingestion prompt is then shown when
  evaluations are requested; the operator declined it; and the arguments as they are
  after step 3.5.\<close>

definition traces_imported :: "import_args \<Rightarrow> import_env \<Rightarrow> bool" where
  "traces_imported args env =
     ((imp_all args \<or> imp_traces args) \<and> fst (import_traces_wrapper env))"

definition prompted :: "import_args \<Rightarrow> import_env \<Rightarrow> bool" where
  "prompted args env = (traces_imported args env \<and> (imp_all args \<or> imp_evaluations args))"

definition declined :: "import_args \<Rightarrow> import_env \<Rightarrow> bool" where
  "declined args env = (prompted args env \<and> \<not> confirms (ingestion_answer env))"

definition after_gate :: "import_args \<Rightarrow> import_env \<Rightarrow> import_args" where
  "after_gate args env =
     (if declined args env then args\<lparr>imp_evaluations := False, imp_all := False\<rparr> else args)"

text \<open>The two prompts and the two warnings of a skipped import.\<close>

definition ingestion_prompt :: event where
  "ingestion_prompt = Input ''Are all traces fully visible in the Arize dashboard?''"

definition annotation_prompt :: event where
  "annotation_prompt = Input ''Have you added all annotation configurations in Arize UI?''"

definition evaluations_skipped :: event where
  "evaluations_skipped = Log WARNING ''Evaluation import skipped''"

text \<open>The error record of a stage whose collaborator raised.\<close>

definition export_error_log :: "string \<Rightarrow> event" where
  "export_error_log name = Log ERROR (''Error exporting '' @ name)"

text \<open>The effects of one export step, given the outcome of its \<^verbatim>\<open>try\<close>.\<close>

definition step_events :: "string \<Rightarrow> string \<Rightarrow> bool result \<Rightarrow> event list" where
  "step_events name msg r = Call name #
       (case r of
          Inr ok \<Rightarrow> if ok then [] else [Log ERROR msg]
        | Inl e \<Rightarrow> [export_error_log name])"

definition import_error_log :: "string \<Rightarrow> event" where
  "import_error_log name =
     (if name = ''traces'' then Log ERROR ''Error in import_traces.import_traces()''
      else Log ERROR (''Error importing '' @ name))"

text \<open>A command line with a single entity flag.\<close>

datatype flag = Datasets | Prompts | Projects | Traces | Annotations | Evaluations

definition stage_of :: "flag \<Rightarrow> string" where
  "stage_of f =
     (case f of
        Datasets \<Rightarrow> ''datasets''
      | Prompts \<Rightarrow> ''prompts''
      | Projects \<Rightarrow> ''traces''
      | Traces \<Rightarrow> ''traces''
      | Annotations \<Rightarrow> ''annotations''
      | Evaluations \<Rightarrow> ''evaluations'')"

definition export_only :: "string option \<Rightarrow> flag \<Rightarrow> export_args" where
  "export_only url f =
     \<lparr>base_url = url, exp_all = False, exp_datasets = (f = Datasets),
      exp_prompts = (f = Prompts), exp_projects = (f = Projects), exp_traces = (f = Traces),
      exp_annotations = (f = Annotations), exp_evaluations = (f = Evaluations)\<rparr>"

text \<open>The import tool has no \<^verbatim>\<open>--projects\<close> flag.\<close>

definition import_only :: "string option \<Rightarrow> string option \<Rightarrow> flag \<Rightarrow> import_args" where
  "import_only key space f =
     \<lparr>api_key = key, space_id = space, imp_all = False, imp_datasets = (f = Datasets),
      imp_traces = (f = Traces), imp_annotations = (f = Annotations),
      imp_evaluations = (f = Evaluations), imp_prompts = (f = Prompts),
      imp_setup_annotations = False\<rparr>"

text \<open>The result shapes of the collaborators (section 4.3 of the specification): a list
  of per-entity dictionaries for datasets and prompts, a dictionary of per-project
  dictionaries for the other entities, whose count, when present, is a number. An
  exporter with nothing to report may also return \<^verbatim>\<open>None\<close>.\<close>

definition entity_list :: "pyval \<Rightarrow> bool" where
  "entity_list v = (case v of PList ds \<Rightarrow> list_all is_dict ds | _ \<Rightarrow> True)"

definition list_manifest :: "pyval \<Rightarrow> bool" where
  "list_manifest v = (case v of PNone \<Rightarrow> True | PList ds \<Rightarrow> list_all is_dict ds | _ \<Rightarrow> False)"

definition project_record :: "string \<Rightarrow> pyval \<Rightarrow> bool" where
  "project_record count_key p =
     (case p of
        PDict kvs \<Rightarrow>
          (case map_of kvs count_key of
             None \<Rightarrow> True
           | Some c \<Rightarrow> \<not> raises (as_number c))
      | _ \<Rightarrow> False)"

definition project_manifest :: "string \<Rightarrow> pyval \<Rightarrow> bool" where
  "project_manifest count_key v =
     (case v of
        PNone \<Rightarrow> True
      | PDict kvs \<Rightarrow> list_all (project_record count_key) (map snd kvs)
      | _ \<Rightarrow> False)"

definition export_manifest :: "string \<Rightarrow> pyval result \<Rightarrow> bool" where
  "export_manifest name outcome =
     (case outcome of
        Inl e \<Rightarrow> True
      | Inr v \<Rightarrow>
          if name = ''datasets'' \<or> name = ''prompts'' then list_manifest v
          else if name = ''traces'' then project_manifest ''trace_count'' v
          else if name = ''annotations'' then project_manifest ''annotation_count'' v
          else project_manifest ''evaluation_count'' v)"

definition entity_result :: "pyval result \<Rightarrow> bool" where
  "entity_result outcome = (case outcome of Inl e \<Rightarrow> True | Inr v \<Rightarrow> entity_list v)"

text \<open>The exporter returned, and its collection has at least one entry.\<close>

definition returned_nonempty :: "pyval result \<Rightarrow> bool" where
  "returned_nonempty outcome =
     (case outcome of
        Inr (PList ds) \<Rightarrow> ds \<noteq> []
      | Inr (PDict kvs) \<Rightarrow> kvs \<noteq> []
      | _ \<Rightarrow> False)"

text \<open>An entry of a list result with the given status, and a project entry of a trace
  result that the wrapper counts as processed.\<close>

definition has_status :: "string list \<Rightarrow> pyval \<Rightarrow> bool" where
  "has_status ss d =
     (case d of
        PDict kvs \<Rightarrow> (case map_of kvs ''status'' of Some (PStr s) \<Rightarrow> s \<in> set ss | _ \<Rightarrow> False)
      | _ \<Rightarrow> False)"

definition processed_project :: "string \<times> pyval \<Rightarrow> bool" where
  "processed_project kv =
     (fst kv \<notin> set [''projects'', ''timestamp''] \<and> has_status [''imported'', ''skipped''] (snd kv))"

section \<open>Example runs\<close>

definition dataset_manifest :: pyval where
  "dataset_manifest = PList [PDict [(''name'', PStr ''qa''), (''status'', PStr ''imported'')]]"

definition prompt_manifest :: pyval where
  "prompt_manifest = PList [PDict [(''name'', PStr ''greet''), (''status'', PStr ''already_exists'')]]"

definition trace_manifest :: pyval where
  "trace_manifest =
     PDict [(''default'', PDict [(''status'', PStr ''imported''), (''trace_count'', PInt 12)])]"

definition evaluation_manifest :: pyval where
  "evaluation_manifest =
     PDict [(''projects'',
             PDict [(''default'', PDict [(''success'', PBool True), (''evaluations_count'', PInt 4)])])]"

definition annotation_manifest :: pyval where
  "annotation_manifest =
     PDict [(''projects'',
             PDict [(''default'', PDict [(''success'', PBool True), (''annotations_count'', PInt 2)])])]"

text \<open>Every importer succeeds and the operator confirms both prompts.\<close>

definition healthy_import :: import_env where
  "healthy_import =
     \<lparr>import_datasets = Inr dataset_manifest,
      import_prompts = Inr prompt_manifest,
      import_traces = Inr trace_manifest,
      import_evaluations = Inr evaluation_manifest,
      import_annotations = Inr annotation_manifest,
      setup_annotations_main = Inr (),
      trace_results_file = Missing,
      ingestion_answer = ''yes'',
      annotation_answer = ''yes''\<rparr>"

text \<open>Credentials given, no flag set.\<close>

definition import_flags :: import_args where
  "import_flags =
     \<lparr>api_key = Some ''key'', space_id = Some ''space'', imp_all = False,
      imp_datasets = False, imp_traces = False, imp_annotations = False,
      imp_evaluations = False, imp_prompts = False, imp_setup_annotations = False\<rparr>"

definition failed_projects :: pyval where
  "failed_projects = PDict [(''default'', PDict [(''status'', PStr ''failed'')])]"

definition failed_entities :: pyval where
  "failed_entities = PList [PDict [(''name'', PStr ''qa''), (''status'', PStr ''failed'')]]"

text \<open>The dataset exporter raises, every entity of the other exporters failed.\<close>

definition poor_export :: export_env where
  "poor_export =
     \<lparr>export_datasets = Inl (Raised ''connection refused''),
      export_prompts = Inr failed_entities,
      export_traces = Inr failed_projects,
      export_annotations = Inr (PDict []),
      export_evaluations = Inr failed_projects\<rparr>"

text \<open>Endpoint given, no flag set.\<close>

definition export_flags :: export_args where
  "export_flags =
     \<lparr>base_url = Some ''http://localhost:6006'', exp_all = False, exp_datasets = False,
      exp_prompts = False, exp_projects = False, exp_traces = False,
      exp_annotations = False, exp_evaluations = False\<rparr>"

section \<open>The run record\<close>

lemma start_fields [simp]:
  "events (start evs) = evs" "successful (start evs) = []"
  "failed (start evs) = []" "exit_code (start evs) = 0"
  by (simp_all add: start_def)

lemma emit_fields [simp]:
  "events (emit evs s) = events s @ evs" "successful (emit evs s) = successful s"
  "failed (emit evs s) = failed s" "exit_code (emit evs s) = exit_code s"
  by (simp_all add: emit_def)

lemma succeed_fields [simp]:
  "events (succeed name s) = events s" "successful (succeed name s) = successful s @ [name]"
  "failed (succeed name s) = failed s" "exit_code (succeed name s) = exit_code s"
  by (simp_all add: succeed_def)

lemma fail_fields [simp]:
  "events (fail name s) = events s" "successful (fail name s) = successful s"
  "failed (fail name s) = failed s @ [name]" "exit_code (fail name s) = exit_code s"
  by (simp_all add: fail_def)

lemma summary_fields [simp]:
  "events (summary s) = events s" "successful (summary s) = successful s"
  "failed (summary s) = failed s"
  "exit_code (summary s) = (if failed s \<noteq> [] then 1 else exit_code s)"
  by (simp_all add: summary_def)

lemma calls_of_append [simp]: "calls_of (xs @ ys) = calls_of xs @ calls_of ys"
  by (induction xs rule: calls_of.induct) simp_all

lemma calls_basic [simp]:
  "calls (start evs) = calls_of evs" "calls (emit evs s) = calls s @ calls_of evs"
  "calls (succeed name s) = calls s" "calls (fail name s) = calls s"
  "calls (summary s) = calls s"
  by (simp_all add: calls_def)

lemma export_step_events:
  "events (export_step name msg exporter body s) =
     events s @ Call name #
       (case bind_exn exporter body of
          Inr ok \<Rightarrow> if ok then [] else [Log ERROR msg]
        | Inl e \<Rightarrow> [Log ERROR (''Error exporting '' @ name)])"
  by (simp add: export_step_def split: sum.split bool.split)

lemma export_step_successful:
  "successful (export_step name msg exporter body s) =
     successful s @ (if bind_exn exporter body = Inr True then [name] else [])"
  by (simp add: export_step_def split: sum.split bool.split)

lemma export_step_failed:
  "failed (export_step name msg exporter body s) =
     failed s @ (if bind_exn exporter body = Inr True then [] else [name])"
  by (simp add: export_step_def split: sum.split bool.split)

lemma export_step_exit_code:
  "exit_code (export_step name msg exporter body s) = exit_code s"
  by (simp add: export_step_def split: sum.split bool.split)

lemma export_step_calls:
  "calls (export_step name msg exporter body s) = calls s @ [name]"
  by (simp add: calls_def export_step_events split: sum.split)

lemmas export_step_simps = export_step_successful export_step_failed export_step_exit_code export_step_calls


lemma optional_export_step:
  "calls (if c then export_step name msg exporter body s else s) =
     calls s @ (if c then [name] else [])"
  "successful (if c then export_step name msg exporter body s else s) =
     successful s @ (if c \<and> bind_exn exporter body = Inr True then [name] else [])"
  "failed (if c then export_step name msg exporter body s else s) =
     failed s @ (if c \<and> bind_exn exporter body \<noteq> Inr True then [name] else [])"
  "exit_code (if c then export_step name msg exporter body s else s) = exit_code s"
  by (simp_all add: export_step_simps)

lemma filter_optional:
  "filter P (if c then [x] else []) = (if c \<and> P x then [x] else [])"
  by (cases c) simp_all

lemma export_ok_simps:
  "export_ok env ''datasets'' = (bind_exn (export_datasets env) export_list_body = Inr True)"
  "export_ok env ''prompts'' = (bind_exn (export_prompts env) export_list_body = Inr True)"
  "export_ok env ''traces'' =
     (bind_exn (export_traces env) (export_dict_body ''trace_count'') = Inr True)"
  "export_ok env ''annotations'' =
     (bind_exn (export_annotations env) (export_dict_body ''annotation_count'') = Inr True)"
  "export_ok env ''evaluations'' =
     (bind_exn (export_evaluations env) (export_dict_body ''evaluation_count'') = Inr True)"
  by (simp_all add: export_ok_def exporter_of_def body_of_def)

lemma export_main_selected:
  assumes "provided (base_url args)" "export_selected args"
  shows "calls (export_main args env) = export_requested args"
    and "successful (export_main args env) = filter (export_ok env) (export_requested args)"
    and "failed (export_main args env) = filter (\<lambda>name. \<not> export_ok env name) (export_requested args)"
    and "exit_code (export_main args env) = (if failed (export_main args env) \<noteq> [] then 1 else 0)"
  using assms unfolding export_main_def Let_def export_requested_def
  by (simp_all only: if_True if_False not_not not_True_eq_False optional_export_step summary_fields start_fields
        calls_basic calls_of.simps append_Nil append_assoc filter_append filter_optional
        export_ok_simps)

lemma export_main_unselected:
  assumes "provided (base_url args)" "\<not> export_selected args"
  shows "events (export_main args env) = [CreateClient, Log ERROR ''No export type selected'']"
    and "successful (export_main args env) = []"
    and "failed (export_main args env) = []"
    and "exit_code (export_main args env) = 0"
    and "export_requested args = []"
  using assms unfolding export_main_def export_requested_def export_selected_def
  by simp_all




lemma import_step_fields [simp]:
  "events (import_step name w s) = events s @ snd w"
  "successful (import_step name w s) = successful s @ (if fst w then [name] else [])"
  "failed (import_step name w s) = failed s @ (if fst w then [] else [name])"
  "exit_code (import_step name w s) = exit_code s"
  "calls (import_step name w s) = calls s @ calls_of (snd w)"
  by (simp_all add: import_step_def calls_def split: prod.split)

lemma wrapper_calls [simp]:
  "calls_of (snd (import_datasets_wrapper env)) = [''datasets'']"
  "calls_of (snd (import_prompts_wrapper env)) = [''prompts'']"
  "calls_of (snd (import_evaluations_wrapper env)) = [''evaluations'']"
  "calls_of (snd (import_annotations_wrapper env)) = [''annotations'']"
  "calls_of (snd (setup_annotations_wrapper env)) = []"
  by (auto simp add: import_datasets_wrapper_def import_prompts_wrapper_def
        import_evaluations_wrapper_def import_annotations_wrapper_def
        setup_annotations_wrapper_def import_list_body_def import_projects_body_def
        bind_exn_def split: sum.split prod.split if_splits)

lemma traces_wrapper_calls [simp]:
  "calls_of (snd (import_traces_wrapper env)) = [''traces'']"
  by (auto simp add: import_traces_wrapper_def traces_result_def traces_body_def
        bind_exn_def split: sum.split prod.split results_file.split option.split if_splits)


lemma optional_import_step:
  "calls (if c then import_step name w s else s) = calls s @ (if c then calls_of (snd w) else [])"
  "successful (if c then import_step name w s else s) =
     successful s @ (if c \<and> fst w then [name] else [])"
  "failed (if c then import_step name w s else s) =
     failed s @ (if c \<and> \<not> fst w then [name] else [])"
  "exit_code (if c then import_step name w s else s) = exit_code s"
  by simp_all

lemma ingestion_gate_args:
  "fst (ingestion_gate args env s) =
     (if ''traces'' \<in> set (successful s) \<and> (imp_all args \<or> imp_evaluations args)
         \<and> \<not> confirms (ingestion_answer env)
      then args\<lparr>imp_evaluations := False, imp_all := False\<rparr> else args)"
  by (simp add: ingestion_gate_def Let_def confirms_def ingestion_prompt_def)

lemma ingestion_gate_run [simp]:
  "calls (snd (ingestion_gate args env s)) = calls s"
  "successful (snd (ingestion_gate args env s)) = successful s"
  "failed (snd (ingestion_gate args env s)) = failed s"
  "exit_code (snd (ingestion_gate args env s)) = exit_code s"
  by (simp_all add: ingestion_gate_def Let_def)

lemma ingestion_gate_events:
  "events (snd (ingestion_gate args env s)) =
     events s @
     (if ''traces'' \<in> set (successful s) \<and> (imp_all args \<or> imp_evaluations args) then
        ingestion_prompt #
        (if confirms (ingestion_answer env) then []
         else [Log WARNING ''Evaluation import skipped'',
               Log WARNING ''You can run the import again with --evaluations''])
      else [])"
  by (simp add: ingestion_gate_def Let_def confirms_def ingestion_prompt_def)

lemma annotations_step_calls:
  "calls (annotations_step args env s) =
     calls s @
     (if (imp_all args \<or> imp_annotations args) \<and> confirms (annotation_answer env)
      then [''annotations''] else [])"
  by (simp add: annotations_step_def Let_def confirms_def split_beta)

lemma annotations_step_failed:
  "failed (annotations_step args env s) =
     failed s @
     (if imp_all args \<or> imp_annotations args then
        (if fst (setup_annotations_wrapper env) then [] else [''annotation setup'']) @
        (if confirms (annotation_answer env) \<and> \<not> fst (import_annotations_wrapper env)
         then [''annotations''] else [])
      else if imp_setup_annotations args \<and> \<not> fst (setup_annotations_wrapper env)
      then [''annotation setup''] else [])"
  by (simp add: annotations_step_def Let_def confirms_def split_beta)

lemma annotations_step_successful:
  "successful (annotations_step args env s) =
     successful s @
     (if imp_all args \<or> imp_annotations args then
        (if confirms (annotation_answer env) \<and> fst (import_annotations_wrapper env)
         then [''annotations''] else [])
      else if imp_setup_annotations args \<and> fst (setup_annotations_wrapper env)
      then [''annotation setup''] else [])"
  by (simp add: annotations_step_def Let_def confirms_def split_beta)

lemma annotations_step_exit_code [simp]:
  "exit_code (annotations_step args env s) = exit_code s"
  by (simp add: annotations_step_def Let_def split_beta)

lemma annotations_step_guide:
  "SetupGuide \<in> set (events (annotations_step args env s)) \<longleftrightarrow>
     SetupGuide \<in> set (events s) \<or> imp_all args \<or> imp_annotations args
       \<or> imp_setup_annotations args"
  by (auto simp add: annotations_step_def Let_def setup_annotations_wrapper_def
        import_annotations_wrapper_def split_beta split: sum.split)

lemma import_main_selected:
  assumes "provided (api_key args)" "provided (space_id args)" "import_selected args"
  shows "calls (import_main args env) =
           (if imp_all args \<or> imp_datasets args then [''datasets''] else []) @
           (if imp_all args \<or> imp_prompts args then [''prompts''] else []) @
           (if imp_all args \<or> imp_traces args then [''traces''] else []) @
           (if imp_all (after_gate args env) \<or> imp_evaluations (after_gate args env)
            then [''evaluations''] else []) @
           (if (imp_all (after_gate args env) \<or> imp_annotations (after_gate args env))
               \<and> confirms (annotation_answer env)
            then [''annotations''] else [])"
  using assms unfolding import_main_def Let_def
  apply (simp only: if_True if_False not_not not_True_eq_False split_beta)
  apply (simp only: annotations_step_calls calls_basic optional_import_step ingestion_gate_run
      ingestion_gate_args  start_fields wrapper_calls traces_wrapper_calls calls_of.simps append_Nil append_assoc)
  apply (simp add: after_gate_def declined_def prompted_def traces_imported_def)
  done


lemma optional_export_step_events:
  "events (if c then export_step name msg exporter body s else s) =
     events s @ (if c then step_events name msg (bind_exn exporter body) else [])"
  by (simp add: export_step_events step_events_def export_error_log_def split: sum.split)

lemma export_main_events:
  assumes "provided (base_url args)" "export_selected args"
  shows "events (export_main args env) =
     CreateClient #
     (if exp_all args \<or> exp_datasets args
      then step_events ''datasets'' ''Failed to export datasets''
             (bind_exn (export_datasets env) export_list_body) else []) @
     (if exp_all args \<or> exp_prompts args
      then step_events ''prompts'' ''Failed to export prompts''
             (bind_exn (export_prompts env) export_list_body) else []) @
     (if exp_all args \<or> exp_traces args \<or> exp_projects args
      then step_events ''traces'' ''Failed to export traces''
             (bind_exn (export_traces env) (export_dict_body ''trace_count'')) else []) @
     (if exp_all args \<or> exp_annotations args
      then step_events ''annotations'' ''No annotations were exported''
             (bind_exn (export_annotations env) (export_dict_body ''annotation_count'')) else []) @
     (if exp_all args \<or> exp_evaluations args
      then step_events ''evaluations'' ''Failed to export evaluations''
             (bind_exn (export_evaluations env) (export_dict_body ''evaluation_count'')) else [])"
  using assms unfolding export_main_def Let_def
  by (simp only: if_True if_False not_not not_True_eq_False optional_export_step_events
        summary_fields start_fields append_Nil append_assoc append_Cons)

lemma annotations_step_events:
  "events (annotations_step args env s) =
     events s @
     (if imp_all args \<or> imp_annotations args then
        snd (setup_annotations_wrapper env) @
        (if fst (setup_annotations_wrapper env) then []
         else [Log ERROR ''Annotation setup guide failed'']) @
        annotation_prompt #
        (if confirms (annotation_answer env) then snd (import_annotations_wrapper env)
         else [Log WARNING ''Annotation import skipped'',
               Log WARNING ''You can run the import again with --annotations''])
      else if imp_setup_annotations args then snd (setup_annotations_wrapper env)
      else [])"
  by (simp add: annotations_step_def Let_def confirms_def split_beta annotation_prompt_def)

lemma optional_import_step_events:
  "events (if c then import_step name w s else s) = events s @ (if c then snd w else [])"
  by simp

lemma traces_in_first_three:
  "''traces'' \<in> set ((if c1 \<and> d then [''datasets''] else []) @
                      (if c2 \<and> p then [''prompts''] else []) @
                      (if c3 \<and> t then [''traces''] else [])) \<longleftrightarrow> c3 \<and> t"
  by simp

lemma import_main_events:
  assumes "provided (api_key args)" "provided (space_id args)" "import_selected args"
  shows "events (import_main args env) =
     (if imp_all args \<or> imp_datasets args then snd (import_datasets_wrapper env) else []) @
     (if imp_all args \<or> imp_prompts args then snd (import_prompts_wrapper env) else []) @
     (if imp_all args \<or> imp_traces args then snd (import_traces_wrapper env) else []) @
     (if prompted args env then
        ingestion_prompt #
        (if confirms (ingestion_answer env) then []
         else [evaluations_skipped,
               Log WARNING ''You can run the import again with --evaluations''])
      else []) @
     (if imp_all (after_gate args env) \<or> imp_evaluations (after_gate args env)
      then snd (import_evaluations_wrapper env) else []) @
     (if imp_all (after_gate args env) \<or> imp_annotations (after_gate args env) then
        snd (setup_annotations_wrapper env) @
        (if fst (setup_annotations_wrapper env) then []
         else [Log ERROR ''Annotation setup guide failed'']) @
        annotation_prompt #
        (if confirms (annotation_answer env) then snd (import_annotations_wrapper env)
         else [Log WARNING ''Annotation import skipped'',
               Log WARNING ''You can run the import again with --annotations''])
      else if imp_setup_annotations (after_gate args env)
      then snd (setup_annotations_wrapper env)
      else [])"
  using assms unfolding import_main_def Let_def
  apply (simp only: if_True if_False not_not not_True_eq_False split_beta)
  apply (simp only: annotations_step_events summary_fields optional_import_step_events
      optional_import_step ingestion_gate_events ingestion_gate_args start_fields
      append_Nil append_assoc traces_in_first_three)
  apply (simp add: after_gate_def declined_def prompted_def traces_imported_def evaluations_skipped_def)
  done

lemma import_main_failed:
  assumes "provided (api_key args)" "provided (space_id args)" "import_selected args"
  shows "failed (import_main args env) =
     (if (imp_all args \<or> imp_datasets args) \<and> \<not> fst (import_datasets_wrapper env)
      then [''datasets''] else []) @
     (if (imp_all args \<or> imp_prompts args) \<and> \<not> fst (import_prompts_wrapper env)
      then [''prompts''] else []) @
     (if (imp_all args \<or> imp_traces args) \<and> \<not> fst (import_traces_wrapper env)
      then [''traces''] else []) @
     (if (imp_all (after_gate args env) \<or> imp_evaluations (after_gate args env))
         \<and> \<not> fst (import_evaluations_wrapper env)
      then [''evaluations''] else []) @
     (if imp_all (after_gate args env) \<or> imp_annotations (after_gate args env) then
        (if fst (setup_annotations_wrapper env) then [] else [''annotation setup'']) @
        (if confirms (annotation_answer env) \<and> \<not> fst (import_annotations_wrapper env)
         then [''annotations''] else [])
      else if imp_setup_annotations (after_gate args env)
              \<and> \<not> fst (setup_annotations_wrapper env)
      then [''annotation setup''] else [])"
  using assms unfolding import_main_def Let_def
  apply (simp only: if_True if_False not_not not_True_eq_False split_beta)
  apply (simp only: annotations_step_failed summary_fields
      optional_import_step ingestion_gate_run ingestion_gate_args start_fields
      append_Nil append_assoc traces_in_first_three)
  apply (simp add: after_gate_def declined_def prompted_def traces_imported_def)
  done

lemma import_main_successful:
  assumes "provided (api_key args)" "provided (space_id args)" "import_selected args"
  shows "successful (import_main args env) =
     (if (imp_all args \<or> imp_datasets args) \<and> fst (import_datasets_wrapper env)
      then [''datasets''] else []) @
     (if (imp_all args \<or> imp_prompts args) \<and> fst (import_prompts_wrapper env)
      then [''prompts''] else []) @
     (if (imp_all args \<or> imp_traces args) \<and> fst (import_traces_wrapper env)
      then [''traces''] else []) @
     (if (imp_all (after_gate args env) \<or> imp_evaluations (after_gate args env))
         \<and> fst (import_evaluations_wrapper env)
      then [''evaluations''] else []) @
     (if imp_all (after_gate args env) \<or> imp_annotations (after_gate args env) then
        (if confirms (annotation_answer env) \<and> fst (import_annotations_wrapper env)
         then [''annotations''] else [])
      else if imp_setup_annotations (after_gate args env)
              \<and> fst (setup_annotations_wrapper env)
      then [''annotation setup''] else [])"
  using assms unfolding import_main_def Let_def
  apply (simp only: if_True if_False not_not not_True_eq_False split_beta)
  apply (simp only: annotations_step_successful summary_fields
      optional_import_step ingestion_gate_run ingestion_gate_args start_fields
      append_Nil append_assoc traces_in_first_three)
  apply (simp add: after_gate_def declined_def prompted_def traces_imported_def)
  done

lemma import_main_exit_code:
  "exit_code (import_main args env) = (if failed (import_main args env) \<noteq> [] then 1 else 0)"
  unfolding import_main_def Let_def
  by (simp add: split_beta)

lemma export_main_exit_code:
  "exit_code (export_main args env) = (if failed (export_main args env) \<noteq> [] then 1 else 0)"
  unfolding export_main_def Let_def
  by (simp add: export_step_exit_code)

section \<open>What the import wrappers return\<close>

lemma is_dict_cases: "is_dict d \<Longrightarrow> \<exists>kvs. d = PDict kvs"
  by (cases d) simp_all

lemma has_status_simps [simp]:
  "has_status ss (PDict kvs) =
     (case map_of kvs ''status'' of Some (PStr s) \<Rightarrow> s \<in> set ss | _ \<Rightarrow> False)"
  "has_status ss PNone = False" "has_status ss (PBool b) = False"
  "has_status ss (PInt n) = False" "has_status ss (PStr t) = False"
  "has_status ss (PList xs) = False"
  by (simp_all add: has_status_def)

lemma status_is:
  "((case map_of kvs ''status'' of None \<Rightarrow> dflt | Some v \<Rightarrow> v) = PStr s) =
     (if map_of kvs ''status'' = None then dflt = PStr s else has_status [s] (PDict kvs))"
  by (simp split: option.split pyval.split)

lemma count_status_dicts:
  "list_all is_dict ds \<Longrightarrow> count_status s ds = Inr (length (filter (has_status [s]) ds))"
proof (induction ds)
  case Nil
  then show ?case by simp
next
  case (Cons d ds)
  then obtain kvs where d: "d = PDict kvs"
    using is_dict_cases by auto
  from Cons have rest: "count_status s ds = Inr (length (filter (has_status [s]) ds))"
    by simp
  show ?case
    by (simp add: d rest status_is)
qed

lemma has_status_two:
  "has_status [s, t] d \<longleftrightarrow> has_status [s] d \<or> has_status [t] d"
  by (cases d) (auto split: pyval.split option.split)

lemma filter_length_pos: "0 < length (filter P xs) \<longleftrightarrow> (\<exists>x \<in> set xs. P x)"
  by (induction xs) auto

lemma import_list_body_entities:
  assumes "entity_list v"
  shows "\<exists>evs. import_list_body name v =
           Inr ((\<exists>ds. v = PList ds \<and> ds \<noteq> [] \<and>
                   (\<exists>d \<in> set ds. has_status [''imported'', ''already_exists''] d)), evs)"
proof (cases v)
  case (PList ds)
  with assms have dicts: "list_all is_dict ds"
    by (simp add: entity_list_def)
  show ?thesis
  proof (cases "ds = []")
    case True
    then show ?thesis
      by (simp add: PList import_list_body_def nonempty_list_def bind_exn_def)
  next
    case False
    then show ?thesis
      using filter_length_pos [of "has_status [''imported'']" ds]
        filter_length_pos [of "has_status [''already_exists'']" ds]
      by (auto simp add: PList import_list_body_def nonempty_list_def bind_exn_def
          count_status_dicts [OF dicts] has_status_two)
  qed
qed (simp_all add: import_list_body_def nonempty_list_def bind_exn_def)

lemma import_datasets_wrapper_verdict:
  assumes "entity_result (import_datasets env)"
  shows "fst (import_datasets_wrapper env) \<longleftrightarrow>
           (\<exists>ds. import_datasets env = Inr (PList ds) \<and> ds \<noteq> [] \<and>
              (\<exists>d \<in> set ds. has_status [''imported'', ''already_exists''] d))"
proof (cases "import_datasets env")
  case (Inl e)
  then show ?thesis
    by (simp add: import_datasets_wrapper_def bind_exn_def)
next
  case (Inr v)
  with assms have "entity_list v"
    by (simp add: entity_result_def)
  from import_list_body_entities [OF this, of "''datasets''"] show ?thesis
    by (auto simp add: Inr import_datasets_wrapper_def bind_exn_def)
qed

lemma import_prompts_wrapper_verdict:
  assumes "entity_result (import_prompts env)"
  shows "fst (import_prompts_wrapper env) \<longleftrightarrow>
           (\<exists>ds. import_prompts env = Inr (PList ds) \<and> ds \<noteq> [] \<and>
              (\<exists>d \<in> set ds. has_status [''imported'', ''already_exists''] d))"
proof (cases "import_prompts env")
  case (Inl e)
  then show ?thesis
    by (simp add: import_prompts_wrapper_def bind_exn_def)
next
  case (Inr v)
  with assms have "entity_list v"
    by (simp add: entity_result_def)
  from import_list_body_entities [OF this, of "''prompts''"] show ?thesis
    by (auto simp add: Inr import_prompts_wrapper_def bind_exn_def)
qed


lemma processed_project_pair:
  "processed_project (key, val) \<longleftrightarrow>
     key \<noteq> ''projects'' \<and> key \<noteq> ''timestamp'' \<and> has_status [''imported'', ''skipped''] val"
  by (simp add: processed_project_def)

lemma count_projects_fst:
  "fst (count_projects items sc tp) = sc + length (filter processed_project items)"
proof (induction items sc tp rule: count_projects.induct)
  case (1 sc tp)
  then show ?case by simp
next
  case (2 key val items sc tp)
  show ?case
  proof (cases "key = ''projects'' \<or> key = ''timestamp''")
    case True
    then have "\<not> processed_project (key, val)"
      by (auto simp add: processed_project_pair)
    with True 2 show ?thesis
      by auto
  next
    case False
    then have special: "key \<notin> set [''projects'', ''timestamp'']"
      by simp
    show ?thesis
    proof (cases val)
      case (PDict kvs)
      have "processed_project (key, val) \<longleftrightarrow>
              (case map_of kvs ''status'' of None \<Rightarrow> PStr [] | Some v \<Rightarrow> v)
                \<in> set [PStr ''imported'', PStr ''skipped'']"
        using False by (auto simp add: processed_project_pair PDict split: option.split pyval.split)
      with 2 special show ?thesis
        by (simp add: PDict del: set_simps)
    next
      case PNone
      with 2 special False show ?thesis
        by (simp add: processed_project_pair)
    next
      case (PBool b)
      with 2 special False show ?thesis
        by (simp add: processed_project_pair)
    next
      case (PInt n)
      with 2 special False show ?thesis
        by (simp add: processed_project_pair)
    next
      case (PStr t)
      with 2 special False show ?thesis
        by (simp add: processed_project_pair)
    next
      case (PList xs)
      with 2 special False show ?thesis
        by (simp add: processed_project_pair)
    qed
  qed
qed

lemma traces_body_verdict:
  "\<exists>evs. traces_body v =
      Inr ((\<exists>items. v = PDict items \<and> items \<noteq> [] \<and> (\<exists>kv \<in> set items. processed_project kv)),
           evs)"
proof (cases v)
  case (PDict items)
  show ?thesis
  proof (cases "items = []")
    case True
    then show ?thesis
      by (simp add: PDict traces_body_def nonempty_dict_def bind_exn_def)
  next
    case False
    have "0 < fst (count_projects items 0 0) \<longleftrightarrow> (\<exists>kv \<in> set items. processed_project kv)"
      using filter_length_pos [of processed_project items] by (simp add: count_projects_fst)
    with False show ?thesis
      by (auto simp add: PDict traces_body_def nonempty_dict_def bind_exn_def split_beta)
  qed
qed (simp_all add: traces_body_def nonempty_dict_def bind_exn_def)

lemma import_traces_wrapper_returned:
  "import_traces env = Inr v \<Longrightarrow>
     fst (import_traces_wrapper env) \<longleftrightarrow>
       (\<exists>items. v = PDict items \<and> items \<noteq> [] \<and> (\<exists>kv \<in> set items. processed_project kv))"
  using traces_body_verdict [of v]
  by (auto simp add: import_traces_wrapper_def traces_result_def)

lemma import_traces_wrapper_loaded:
  "import_traces env = Inl e \<Longrightarrow> trace_results_file env = Loadable v \<Longrightarrow>
     fst (import_traces_wrapper env) \<longleftrightarrow>
       (\<exists>items. v = PDict items \<and> items \<noteq> [] \<and> (\<exists>kv \<in> set items. processed_project kv))"
  using traces_body_verdict [of v]
  by (auto simp add: import_traces_wrapper_def traces_result_def)

lemma import_traces_wrapper_lost:
  "import_traces env = Inl e \<Longrightarrow> \<forall>v. trace_results_file env \<noteq> Loadable v \<Longrightarrow>
     \<not> fst (import_traces_wrapper env)"
  by (cases "trace_results_file env")
     (simp_all add: import_traces_wrapper_def traces_result_def)

section \<open>The claims\<close>

lemmas example_defs = dataset_manifest_def prompt_manifest_def trace_manifest_def
  evaluation_manifest_def annotation_manifest_def healthy_import_def import_flags_def
  failed_projects_def failed_entities_def poor_export_def export_flags_def

lemma export_failed_requested:
  assumes "provided (base_url args)"
  shows "set (failed (export_main args env)) \<subseteq> set (export_requested args)"
proof (cases "export_selected args")
  case True
  with assms show ?thesis
    by (simp add: export_main_selected(3))
next
  case False
  with assms show ?thesis
    by (simp add: export_main_unselected(3))
qed

lemma after_gate_flags:
  "imp_all (after_gate args env) \<Longrightarrow> imp_all args"
  "imp_evaluations (after_gate args env) \<Longrightarrow> imp_evaluations args"
  "imp_annotations (after_gate args env) = imp_annotations args"
  "imp_setup_annotations (after_gate args env) = imp_setup_annotations args"
  "imp_all (after_gate args env) = (imp_all args \<and> \<not> declined args env)"
  "imp_evaluations (after_gate args env) = (imp_evaluations args \<and> \<not> declined args env)"
  by (auto simp add: after_gate_def split: if_splits)

lemma import_failed_requested:
  assumes "provided (api_key args)" "provided (space_id args)" "import_selected args"
  shows "set (failed (import_main args env)) \<subseteq> set (import_requested args)"
  unfolding import_main_failed [OF assms] import_requested_def
  by (auto simp add: after_gate_flags(3-6) split: if_splits)

text \<open>
  \<^bold>\<open>C3.\<close> For every run that requests at least one stage and passes the
  required-argument checks, the exit code of the process is non-zero if and only if at
  least one requested stage was recorded in the failed list. Both controllers end with
  \<^verbatim>\<open>if failed: sys.exit(1)\<close>, and the failed list only ever holds stages the run
  requested.
\<close>

theorem exit_code_nonzero_iff_requested_stage_failed:
  "(provided (base_url x) \<and> export_selected x \<longrightarrow>
      (exit_code (export_main x env) \<noteq> 0 \<longleftrightarrow>
         (\<exists>name \<in> set (export_requested x). name \<in> set (failed (export_main x env))))) \<and>
   (provided (api_key a) \<and> provided (space_id a) \<and> import_selected a \<longrightarrow>
      (exit_code (import_main a e) \<noteq> 0 \<longleftrightarrow>
         (\<exists>name \<in> set (import_requested a). name \<in> set (failed (import_main a e)))))"
proof (intro conjI impI)
  assume h: "provided (base_url x) \<and> export_selected x"
  then have sub: "set (failed (export_main x env)) \<subseteq> set (export_requested x)"
    by (simp add: export_failed_requested)
  have "exit_code (export_main x env) \<noteq> 0 \<longleftrightarrow> failed (export_main x env) \<noteq> []"
    by (simp add: export_main_exit_code)
  also have "\<dots> \<longleftrightarrow> (\<exists>name. name \<in> set (failed (export_main x env)))"
    by (cases "failed (export_main x env)") auto
  also have "\<dots> \<longleftrightarrow> (\<exists>name \<in> set (export_requested x). name \<in> set (failed (export_main x env)))"
    using sub by blast
  finally show "exit_code (export_main x env) \<noteq> 0 \<longleftrightarrow>
         (\<exists>name \<in> set (export_requested x). name \<in> set (failed (export_main x env)))" .
next
  assume h: "provided (api_key a) \<and> provided (space_id a) \<and> import_selected a"
  then have sub: "set (failed (import_main a e)) \<subseteq> set (import_requested a)"
    by (simp add: import_failed_requested)
  have "exit_code (import_main a e) \<noteq> 0 \<longleftrightarrow> failed (import_main a e) \<noteq> []"
    by (simp add: import_main_exit_code)
  also have "\<dots> \<longleftrightarrow> (\<exists>name. name \<in> set (failed (import_main a e)))"
    by (cases "failed (import_main a e)") auto
  also have "\<dots> \<longleftrightarrow> (\<exists>name \<in> set (import_requested a). name \<in> set (failed (import_main a e)))"
    using sub by blast
  finally show "exit_code (import_main a e) \<noteq> 0 \<longleftrightarrow>
         (\<exists>name \<in> set (import_requested a). name \<in> set (failed (import_main a e)))" .
qed



theorem exit_code_nonzero_iff_requested_stage_failed_witness:
  "provided (base_url (export_flags\<lparr>exp_all := True\<rparr>)) \<and>
   export_selected (export_flags\<lparr>exp_all := True\<rparr>) \<and>
   ''datasets'' \<in> set (failed (export_main (export_flags\<lparr>exp_all := True\<rparr>) poor_export)) \<and>
   exit_code (export_main (export_flags\<lparr>exp_all := True\<rparr>) poor_export) \<noteq> 0 \<and>
   provided (api_key (import_flags\<lparr>imp_all := True\<rparr>)) \<and>
   provided (space_id (import_flags\<lparr>imp_all := True\<rparr>)) \<and>
   import_selected (import_flags\<lparr>imp_all := True\<rparr>) \<and>
   failed (import_main (import_flags\<lparr>imp_all := True\<rparr>) healthy_import) = [] \<and>
   exit_code (import_main (import_flags\<lparr>imp_all := True\<rparr>) healthy_import) = 0"
proof -
  let ?x = "export_flags\<lparr>exp_all := True\<rparr>"
  let ?a = "import_flags\<lparr>imp_all := True\<rparr>"
  have x: "provided (base_url ?x) \<and> export_selected ?x"
    by code_simp
  have a: "provided (api_key ?a) \<and> provided (space_id ?a) \<and> import_selected ?a"
    by code_simp
  have req: "''datasets'' \<in> set (export_requested ?x)"
    by code_simp
  have bad: "''datasets'' \<in> set (failed (export_main ?x poor_export))"
    by code_simp
  have good: "failed (import_main ?a healthy_import) = []"
    by code_simp
  from exit_code_nonzero_iff_requested_stage_failed [of ?x poor_export ?a healthy_import]
    x a req bad good
  show ?thesis
    by auto
qed

text \<open>
  \<^bold>\<open>C8.\<close> The dataset and the prompt import wrapper treat the status
  \<^verbatim>\<open>already_exists\<close> as success equally with \<^verbatim>\<open>imported\<close>: each returns \<^verbatim>\<open>True\<close>
  if and only if its importer returns, without an exception, a non-empty list with at
  least one entry whose status is one of the two. The importers return lists of
  per-entity dictionaries.
\<close>

theorem list_wrappers_accept_imported_and_already_exists:
  assumes "entity_result (import_datasets env)" and "entity_result (import_prompts env)"
  shows "(fst (import_datasets_wrapper env) \<longleftrightarrow>
            (\<exists>ds. import_datasets env = Inr (PList ds) \<and> ds \<noteq> [] \<and>
               (\<exists>d \<in> set ds. has_status [''imported'', ''already_exists''] d))) \<and>
         (fst (import_prompts_wrapper env) \<longleftrightarrow>
            (\<exists>ds. import_prompts env = Inr (PList ds) \<and> ds \<noteq> [] \<and>
               (\<exists>d \<in> set ds. has_status [''imported'', ''already_exists''] d)))"
  using assms
  by (simp only: import_datasets_wrapper_verdict import_prompts_wrapper_verdict simp_thms)

theorem list_wrappers_accept_imported_and_already_exists_witness:
  "entity_result (import_datasets healthy_import) \<and>
   entity_result (import_prompts healthy_import) \<and>
   import_prompts healthy_import =
     Inr (PList [PDict [(''name'', PStr ''greet''), (''status'', PStr ''already_exists'')]]) \<and>
   fst (import_datasets_wrapper healthy_import) \<and>
   fst (import_prompts_wrapper healthy_import)"
proof -
  have d: "entity_result (import_datasets healthy_import)"
    by code_simp
  have p: "entity_result (import_prompts healthy_import)"
    by code_simp
  from list_wrappers_accept_imported_and_already_exists [OF d p] d p show ?thesis
    by (simp add: example_defs)
qed

text \<open>
  \<^bold>\<open>C9.\<close> When \<^verbatim>\<open>import_traces.import_traces\<close> raises and the trace result manifest of
  an earlier attempt exists and loads, \<^verbatim>\<open>import_traces_wrapper\<close> goes on with the loaded
  results exactly as if the importer had returned them: it returns \<^verbatim>\<open>True\<close> when they are
  a non-empty dictionary with at least one project entry of status \<^verbatim>\<open>imported\<close> or
  \<^verbatim>\<open>skipped\<close>. When the manifest is absent or cannot be loaded, the wrapper returns
  \<^verbatim>\<open>False\<close>.
\<close>

theorem traces_wrapper_recovers_from_results_file:
  assumes "import_traces env = Inl e"
  shows "(trace_results_file env = Loadable v \<longrightarrow>
            LoadResults \<in> set (snd (import_traces_wrapper env)) \<and>
            fst (import_traces_wrapper env) =
              fst (import_traces_wrapper (env\<lparr>import_traces := Inr v\<rparr>)) \<and>
            (fst (import_traces_wrapper env) \<longleftrightarrow>
               (\<exists>items. v = PDict items \<and> items \<noteq> [] \<and>
                  (\<exists>kv \<in> set items. processed_project kv)))) \<and>
         (trace_results_file env = Missing \<or> trace_results_file env = Unreadable \<longrightarrow>
            \<not> fst (import_traces_wrapper env))"
proof (intro conjI impI)
  assume on_disk: "trace_results_file env = Loadable v"
  show "LoadResults \<in> set (snd (import_traces_wrapper env))"
    using traces_body_verdict [of v]
    by (auto simp add: import_traces_wrapper_def traces_result_def assms on_disk)
  have "import_traces (env\<lparr>import_traces := Inr v\<rparr>) = Inr v"
    by simp
  from import_traces_wrapper_returned [OF this] import_traces_wrapper_loaded [OF assms on_disk]
  show "fst (import_traces_wrapper env) =
          fst (import_traces_wrapper (env\<lparr>import_traces := Inr v\<rparr>))"
    by simp
  from import_traces_wrapper_loaded [OF assms on_disk]
  show "fst (import_traces_wrapper env) \<longleftrightarrow>
          (\<exists>items. v = PDict items \<and> items \<noteq> [] \<and> (\<exists>kv \<in> set items. processed_project kv))" .
next
  assume "trace_results_file env = Missing \<or> trace_results_file env = Unreadable"
  then have "\<forall>v. trace_results_file env \<noteq> Loadable v"
    by auto
  from import_traces_wrapper_lost [OF assms this]
  show "\<not> fst (import_traces_wrapper env)" .
qed

theorem traces_wrapper_recovers_from_results_file_witness:
  "import_traces (healthy_import\<lparr>import_traces := Inl (Raised ''timeout''),
       trace_results_file := Loadable trace_manifest\<rparr>) = Inl (Raised ''timeout'') \<and>
   fst (import_traces_wrapper (healthy_import\<lparr>import_traces := Inl (Raised ''timeout''),
       trace_results_file := Loadable trace_manifest\<rparr>))"
proof -
  let ?env = "healthy_import\<lparr>import_traces := Inl (Raised ''timeout''),
       trace_results_file := Loadable trace_manifest\<rparr>"
  have raised: "import_traces ?env = Inl (Raised ''timeout'')"
    by simp
  have on_disk: "trace_results_file ?env = Loadable trace_manifest"
    by simp
  have "\<exists>items. trace_manifest = PDict items \<and> items \<noteq> [] \<and>
          (\<exists>kv \<in> set items. processed_project kv)"
    by (simp add: trace_manifest_def processed_project_def)
  with traces_wrapper_recovers_from_results_file [OF raised, of trace_manifest] on_disk raised
  show ?thesis
    by blast
qed

lemma project_record_dict: "project_record k p \<Longrightarrow> is_dict p"
  by (cases p) (simp_all add: project_record_def)

lemma list_all_project_record_dict:
  "list_all (project_record k) ps \<Longrightarrow> list_all is_dict ps"
  by (induction ps) (auto dest: project_record_dict)

lemma sum_field_records:
  "list_all (project_record k) ps \<Longrightarrow> \<exists>n. sum_field k ps = Inr n"
proof (induction ps)
  case Nil
  then show ?case by simp
next
  case (Cons p ps)
  then obtain m where rest: "sum_field k ps = Inr m"
    by auto
  from Cons.prems obtain kvs where p: "p = PDict kvs"
    using project_record_dict is_dict_cases by fastforce
  show ?case
  proof (cases "map_of kvs k")
    case None
    then show ?thesis
      by (simp add: p rest)
  next
    case (Some c)
    with Cons.prems have "\<not> raises (as_number c)"
      by (simp add: p project_record_def)
    then obtain n where "as_number c = Inr n"
      by (cases "as_number c") (simp_all add: raises_def)
    with Some show ?thesis
      by (simp add: p rest)
  qed
qed

lemma returned_nonempty_list:
  "list_manifest v \<Longrightarrow> returned_nonempty (Inr v) \<longleftrightarrow> truthy v"
  by (cases v) (simp_all add: returned_nonempty_def list_manifest_def)

lemma returned_nonempty_projects:
  "project_manifest k v \<Longrightarrow> returned_nonempty (Inr v) \<longleftrightarrow> truthy v"
  by (cases v) (simp_all add: returned_nonempty_def project_manifest_def)

lemma export_list_body_manifest:
  "list_manifest v \<Longrightarrow> export_list_body v = Inr (truthy v)"
  by (cases v)
     (simp_all add: list_manifest_def export_list_body_def bind_exn_def count_status_dicts)

lemma export_dict_body_manifest:
  assumes "project_manifest k v"
  shows "export_dict_body k v = Inr (truthy v)"
proof (cases v)
  case (PDict kvs)
  with assms have records: "list_all (project_record k) (map snd kvs)"
    by (simp add: project_manifest_def)
  from sum_field_records [OF records] obtain n where "sum_field k (map snd kvs) = Inr n"
    by auto
  then show ?thesis
    by (simp add: PDict export_dict_body_def bind_exn_def
        count_status_dicts [OF list_all_project_record_dict [OF records]])
qed (use assms in \<open>simp_all add: project_manifest_def export_dict_body_def\<close>)

lemma export_requested_names:
  "name \<in> set (export_requested args) \<Longrightarrow>
     name = ''datasets'' \<or> name = ''prompts'' \<or> name = ''traces'' \<or> name = ''annotations''
       \<or> name = ''evaluations''"
  by (auto simp add: export_requested_def split: if_splits)

lemma export_ok_manifest:
  assumes "name \<in> set (export_requested args)"
    and "export_manifest name (exporter_of env name)"
  shows "export_ok env name \<longleftrightarrow> returned_nonempty (exporter_of env name)"
proof (cases "exporter_of env name")
  case (Inl e)
  then show ?thesis
    by (simp add: export_ok_def bind_exn_def returned_nonempty_def)
next
  case (Inr v)
  from export_requested_names [OF assms(1)] assms(2) show ?thesis
    unfolding Inr export_ok_def body_of_def
    by (auto simp add: export_manifest_def bind_exn_def export_list_body_manifest
        export_dict_body_manifest returned_nonempty_list returned_nonempty_projects
        split: if_splits)
qed

text \<open>
  \<^bold>\<open>C10.\<close> In the export pipeline a requested stage is recorded as successful if and only
  if its exporter returns without an exception and its result collection is non-empty,
  whatever the per-entity statuses inside it; otherwise it is recorded as failed. A
  non-empty result in which every entry has a failed status is still a successful stage,
  an empty result is a failed one. The exporters return result manifests of their shape:
  a list of per-entity dictionaries, or a dictionary of per-project dictionaries.
\<close>

theorem export_stage_successful_iff_result_nonempty:
  assumes "provided (base_url x)"
    and "name \<in> set (export_requested x)"
    and "export_manifest name (exporter_of env name)"
  shows "(name \<in> set (successful (export_main x env)) \<longleftrightarrow>
            returned_nonempty (exporter_of env name)) \<and>
         (name \<in> set (failed (export_main x env)) \<longleftrightarrow>
            \<not> returned_nonempty (exporter_of env name))"
proof -
  from assms(2) have selected: "export_selected x"
    by (auto simp add: export_requested_def export_selected_def split: if_splits)
  from export_ok_manifest [OF assms(2,3)] assms(2) show ?thesis
    by (simp add: export_main_selected(2,3) [OF assms(1) selected])
qed

theorem export_stage_successful_iff_result_nonempty_witness:
  "provided (base_url (export_flags\<lparr>exp_all := True\<rparr>)) \<and>
   ''traces'' \<in> set (export_requested (export_flags\<lparr>exp_all := True\<rparr>)) \<and>
   export_manifest ''traces'' (exporter_of poor_export ''traces'') \<and>
   exporter_of poor_export ''traces'' =
     Inr (PDict [(''default'', PDict [(''status'', PStr ''failed'')])]) \<and>
   ''traces'' \<in> set (successful (export_main (export_flags\<lparr>exp_all := True\<rparr>) poor_export)) \<and>
   ''traces'' \<notin> set (failed (export_main (export_flags\<lparr>exp_all := True\<rparr>) poor_export))"
proof -
  let ?x = "export_flags\<lparr>exp_all := True\<rparr>"
  have url: "provided (base_url ?x)"
    by code_simp
  have req: "''traces'' \<in> set (export_requested ?x)"
    by code_simp
  have shape: "export_manifest ''traces'' (exporter_of poor_export ''traces'')"
    by code_simp
  have result: "exporter_of poor_export ''traces'' =
      Inr (PDict [(''default'', PDict [(''status'', PStr ''failed'')])])"
    by (simp add: exporter_of_def poor_export_def failed_projects_def)
  from export_stage_successful_iff_result_nonempty [OF url req shape] url req shape result
  show ?thesis
    by (simp add: returned_nonempty_def)
qed

lemma import_main_unselected:
  assumes "provided (api_key args)" "provided (space_id args)" "\<not> import_selected args"
  shows "import_main args env = start [Log ERROR ''No import type selected'']"
  using assms by (simp add: import_main_def)

lemma traces_successful_iff:
  assumes "provided (api_key a)" "provided (space_id a)"
  shows "''traces'' \<in> set (successful (import_main a e)) \<longleftrightarrow>
           import_selected a \<and> traces_imported a e"
proof (cases "import_selected a")
  case True
  show ?thesis
    unfolding import_main_successful [OF assms True]
    by (auto simp add: True traces_imported_def split: if_splits)
next
  case False
  then show ?thesis
    by (simp add: import_main_unselected [OF assms])
qed

lemma declined_all:
  "imp_all a \<Longrightarrow> declined a e \<longleftrightarrow> fst (import_traces_wrapper e) \<and> \<not> confirms (ingestion_answer e)"
  by (simp add: declined_def prompted_def traces_imported_def)

lemma guide_in_wrappers [simp]:
  "SetupGuide \<notin> set (snd (import_datasets_wrapper env))"
  "SetupGuide \<notin> set (snd (import_prompts_wrapper env))"
  "SetupGuide \<notin> set (snd (import_traces_wrapper env))"
  "SetupGuide \<notin> set (snd (import_evaluations_wrapper env))"
  "SetupGuide \<notin> set (snd (import_annotations_wrapper env))"
  "SetupGuide \<in> set (snd (setup_annotations_wrapper env))"
  by (auto simp add: import_datasets_wrapper_def import_prompts_wrapper_def
        import_evaluations_wrapper_def import_annotations_wrapper_def
        import_traces_wrapper_def traces_result_def traces_body_def
        setup_annotations_wrapper_def import_list_body_def import_projects_body_def
        bind_exn_def split: sum.splits prod.splits if_splits results_file.splits option.splits)

lemma import_main_guide:
  assumes "provided (api_key a)" "provided (space_id a)" "import_selected a"
  shows "SetupGuide \<in> set (events (import_main a e)) \<longleftrightarrow>
           imp_all (after_gate a e) \<or> imp_annotations a \<or> imp_setup_annotations a"
  unfolding import_main_events [OF assms]
  by (auto simp add: after_gate_flags(3,4) ingestion_prompt_def annotation_prompt_def
        evaluations_skipped_def split: if_splits)

text \<open>
  \<^bold>\<open>C1\<close> (as stated) fails on the exit code: a run without the Arize API key returns
  from \<^verbatim>\<open>main\<close>, so the process ends with exit code 0.
\<close>

theorem missing_api_key_exit_code_counterexample:
  "\<not> provided (api_key (import_flags\<lparr>api_key := None, imp_all := True\<rparr>)) \<and>
   exit_code (import_main (import_flags\<lparr>api_key := None, imp_all := True\<rparr>) healthy_import) \<noteq> 1"
  by code_simp

text \<open>
  \<^bold>\<open>C1\<close> (amended). For every run in which a required argument is missing (import: no
  Arize API key or no space ID; export: no Phoenix base URL), the program logs one error
  and does nothing else: no client is built, no exporter or importer is called, no stage
  is recorded, and \<^verbatim>\<open>main\<close> returns, so the exit code is 0.
\<close>

theorem missing_required_argument_returns_early:
  "(\<not> provided (api_key a) \<or> \<not> provided (space_id a) \<longrightarrow>
      (\<exists>msg. events (import_main a e) = [Log ERROR msg]) \<and>
      calls (import_main a e) = [] \<and>
      successful (import_main a e) = [] \<and>
      failed (import_main a e) = [] \<and>
      exit_code (import_main a e) = 0) \<and>
   (\<not> provided (base_url x) \<longrightarrow>
      (\<exists>msg. events (export_main x env) = [Log ERROR msg]) \<and>
      calls (export_main x env) = [] \<and>
      successful (export_main x env) = [] \<and>
      failed (export_main x env) = [] \<and>
      exit_code (export_main x env) = 0)"
proof (intro conjI impI)
  assume "\<not> provided (api_key a) \<or> \<not> provided (space_id a)"
  then have early: "import_main a e = start [Log ERROR ''No Arize API key provided''] \<or>
      import_main a e = start [Log ERROR ''No Arize Space ID provided'']"
    by (auto simp add: import_main_def)
  then show "\<exists>msg. events (import_main a e) = [Log ERROR msg]"
    by auto
  from early show "calls (import_main a e) = []"
    by auto
  from early show "successful (import_main a e) = []"
    by auto
  from early show "failed (import_main a e) = []"
    by auto
  from early show "exit_code (import_main a e) = 0"
    by auto
next
  assume "\<not> provided (base_url x)"
  then have early: "export_main x env = start [Log ERROR ''No Phoenix Endpoint URL provided'']"
    by (simp add: export_main_def)
  then show "\<exists>msg. events (export_main x env) = [Log ERROR msg]"
    by simp
  from early show "calls (export_main x env) = []"
    by simp
  from early show "successful (export_main x env) = []"
    by simp
  from early show "failed (export_main x env) = []"
    by simp
  from early show "exit_code (export_main x env) = 0"
    by simp
qed

theorem missing_required_argument_returns_early_witness:
  "\<not> provided (space_id (import_flags\<lparr>space_id := Some [], imp_all := True\<rparr>)) \<and>
   calls (import_main (import_flags\<lparr>space_id := Some [], imp_all := True\<rparr>) healthy_import) = [] \<and>
   exit_code (import_main (import_flags\<lparr>space_id := Some [], imp_all := True\<rparr>) healthy_import) = 0 \<and>
   \<not> provided (base_url (export_flags\<lparr>base_url := None, exp_all := True\<rparr>)) \<and>
   calls (export_main (export_flags\<lparr>base_url := None, exp_all := True\<rparr>) poor_export) = [] \<and>
   exit_code (export_main (export_flags\<lparr>base_url := None, exp_all := True\<rparr>) poor_export) = 0"
proof -
  let ?a = "import_flags\<lparr>space_id := Some [], imp_all := True\<rparr>"
  let ?x = "export_flags\<lparr>base_url := None, exp_all := True\<rparr>"
  have a: "\<not> provided (space_id ?a)"
    by code_simp
  have x: "\<not> provided (base_url ?x)"
    by code_simp
  from missing_required_argument_returns_early [of ?a healthy_import ?x poor_export] a x
  show ?thesis
    by blast
qed

text \<open>
  \<^bold>\<open>C2\<close> (as stated) fails for the import pipeline: with \<^verbatim>\<open>--all\<close>, a successful traces
  import and the answer no at the ingestion prompt, neither evaluations nor annotations
  are imported.
\<close>

theorem all_flag_declined_counterexample:
  "imp_all (import_flags\<lparr>imp_all := True\<rparr>) \<and>
   calls (import_main (import_flags\<lparr>imp_all := True\<rparr>)
            (healthy_import\<lparr>ingestion_answer := ''no''\<rparr>))
     \<noteq> [''datasets'', ''prompts'', ''traces'', ''evaluations'', ''annotations'']"
  by code_simp

text \<open>
  \<^bold>\<open>C2\<close> (amended). For every run invoked with \<^verbatim>\<open>--all\<close> (with credentials present) and
  whatever other flags are set, the export pipeline calls every exporter in the fixed
  order datasets, prompts, traces+projects, annotations, evaluations. The import pipeline
  calls the importers of datasets, prompts and traces in that order; then, unless the
  traces import succeeded and the operator declined the ingestion prompt, it calls the
  importer of evaluations, and then the importer of annotations once the operator has
  confirmed the annotation prompt. After a declined ingestion prompt evaluations are
  skipped, and annotations are imported only if \<^verbatim>\<open>--annotations\<close> was given as well and
  the operator confirms the annotation prompt.
\<close>

theorem all_flag_runs_stages_in_fixed_order:
  "(provided (base_url x) \<and> exp_all x \<longrightarrow>
      calls (export_main x env) =
        [''datasets'', ''prompts'', ''traces'', ''annotations'', ''evaluations'']) \<and>
   (provided (api_key a) \<and> provided (space_id a) \<and> imp_all a \<longrightarrow>
      calls (import_main a e) =
        [''datasets'', ''prompts'', ''traces''] @
        (if fst (import_traces_wrapper e) \<and> \<not> confirms (ingestion_answer e)
         then (if imp_annotations a \<and> confirms (annotation_answer e)
               then [''annotations''] else [])
         else ''evaluations'' #
              (if confirms (annotation_answer e) then [''annotations''] else [])))"
proof (intro conjI impI)
  assume h: "provided (base_url x) \<and> exp_all x"
  then have "export_selected x"
    by (simp add: export_selected_def)
  with h show "calls (export_main x env) =
        [''datasets'', ''prompts'', ''traces'', ''annotations'', ''evaluations'']"
    by (simp add: export_main_selected(1) export_requested_def)
next
  assume h: "provided (api_key a) \<and> provided (space_id a) \<and> imp_all a"
  then have selected: "import_selected a"
    by (simp add: import_selected_def)
  from h have gate: "declined a e \<longleftrightarrow>
      fst (import_traces_wrapper e) \<and> \<not> confirms (ingestion_answer e)"
    by (simp add: declined_all)
  from h selected show "calls (import_main a e) =
        [''datasets'', ''prompts'', ''traces''] @
        (if fst (import_traces_wrapper e) \<and> \<not> confirms (ingestion_answer e)
         then (if imp_annotations a \<and> confirms (annotation_answer e)
               then [''annotations''] else [])
         else ''evaluations'' #
              (if confirms (annotation_answer e) then [''annotations''] else []))"
    by (simp add: import_main_selected after_gate_flags(3,5,6) gate)
qed

theorem all_flag_runs_stages_in_fixed_order_witness:
  "provided (base_url (export_flags\<lparr>exp_all := True, exp_prompts := True\<rparr>)) \<and>
   exp_all (export_flags\<lparr>exp_all := True, exp_prompts := True\<rparr>) \<and>
   calls (export_main (export_flags\<lparr>exp_all := True, exp_prompts := True\<rparr>) poor_export) =
     [''datasets'', ''prompts'', ''traces'', ''annotations'', ''evaluations''] \<and>
   provided (api_key (import_flags\<lparr>imp_all := True, imp_traces := True\<rparr>)) \<and>
   provided (space_id (import_flags\<lparr>imp_all := True, imp_traces := True\<rparr>)) \<and>
   imp_all (import_flags\<lparr>imp_all := True, imp_traces := True\<rparr>) \<and>
   calls (import_main (import_flags\<lparr>imp_all := True, imp_traces := True\<rparr>) healthy_import) =
     [''datasets'', ''prompts'', ''traces'', ''evaluations'', ''annotations'']"
proof -
  let ?x = "export_flags\<lparr>exp_all := True, exp_prompts := True\<rparr>"
  let ?a = "import_flags\<lparr>imp_all := True, imp_traces := True\<rparr>"
  have x: "provided (base_url ?x) \<and> exp_all ?x"
    by code_simp
  have a: "provided (api_key ?a) \<and> provided (space_id ?a) \<and> imp_all ?a"
    by code_simp
  have yes: "confirms (ingestion_answer healthy_import) \<and> confirms (annotation_answer healthy_import)"
    by code_simp
  from all_flag_runs_stages_in_fixed_order [of ?x poor_export ?a healthy_import] x a yes
  show ?thesis
    by simp
qed

text \<open>
  \<^bold>\<open>C7\<close> (as stated) fails for the import flag \<^verbatim>\<open>--annotations\<close>: the run first executes
  the setup guide, and when the operator does not confirm the annotation prompt the
  annotations importer is never called.
\<close>

theorem annotations_flag_alone_counterexample:
  "calls (import_main (import_only (Some ''key'') (Some ''space'') Annotations)
            (healthy_import\<lparr>annotation_answer := ''no''\<rparr>)) \<noteq> [stage_of Annotations] \<and>
   SetupGuide \<in> set (events (import_main (import_only (Some ''key'') (Some ''space'') Annotations)
            (healthy_import\<lparr>annotation_answer := ''no''\<rparr>)))"
  by code_simp

text \<open>
  \<^bold>\<open>C7\<close> (amended). For each supported entity flag, a run that selects only that flag
  (with credentials present) calls no exporter or importer other than the one of that
  flag. The export pipeline calls that exporter exactly once, \<^verbatim>\<open>--projects\<close> selecting the
  traces stage like \<^verbatim>\<open>--traces\<close>. The import pipeline calls the importer of
  \<^verbatim>\<open>--datasets\<close>, \<^verbatim>\<open>--prompts\<close>, \<^verbatim>\<open>--traces\<close> or \<^verbatim>\<open>--evaluations\<close> exactly once and does
  not run the setup guide; with \<^verbatim>\<open>--annotations\<close> it runs the setup guide and calls the
  annotations importer only when the operator confirms the annotation prompt.
\<close>

theorem single_flag_runs_single_stage:
  "(provided url \<longrightarrow> calls (export_main (export_only url f) env) = [stage_of f]) \<and>
   (provided key \<and> provided space \<and> g \<noteq> Projects \<longrightarrow>
      calls (import_main (import_only key space g) e) =
        (if g = Annotations \<and> \<not> confirms (annotation_answer e) then [] else [stage_of g]) \<and>
      (SetupGuide \<in> set (events (import_main (import_only key space g) e)) \<longleftrightarrow>
         g = Annotations))"
proof (intro conjI impI)
  assume url: "provided url"
  have selected: "export_selected (export_only url f)"
    by (cases f) (simp_all add: export_selected_def export_only_def)
  from url have "provided (base_url (export_only url f))"
    by (simp add: export_only_def)
  from export_main_selected(1) [OF this selected]
  show "calls (export_main (export_only url f) env) = [stage_of f]"
    by (cases f) (simp_all add: export_requested_def export_only_def stage_of_def)
next
  assume h: "provided key \<and> provided space \<and> g \<noteq> Projects"
  let ?a = "import_only key space g"
  from h have key: "provided (api_key ?a)" and space: "provided (space_id ?a)"
    by (simp_all add: import_only_def)
  from h have selected: "import_selected ?a"
    by (cases g) (simp_all add: import_selected_def import_only_def)
  have gate: "\<not> declined ?a e"
    by (cases g) (simp_all add: declined_def prompted_def traces_imported_def import_only_def)
  then have unchanged: "after_gate ?a e = ?a"
    by (simp add: after_gate_def)
  from h show "calls (import_main ?a e) =
      (if g = Annotations \<and> \<not> confirms (annotation_answer e) then [] else [stage_of g])"
    unfolding import_main_selected [OF key space selected] unchanged
    by (cases g) (simp_all add: import_only_def stage_of_def)
  show "SetupGuide \<in> set (events (import_main ?a e)) \<longleftrightarrow> g = Annotations"
    unfolding import_main_guide [OF key space selected] unchanged
    by (simp add: import_only_def)
qed

theorem single_flag_runs_single_stage_witness:
  "provided (Some ''http://localhost:6006'') \<and>
   calls (export_main (export_only (Some ''http://localhost:6006'') Projects) poor_export) =
     [''traces''] \<and>
   provided (Some ''key'') \<and> provided (Some ''space'') \<and> Evaluations \<noteq> Projects \<and>
   calls (import_main (import_only (Some ''key'') (Some ''space'') Evaluations) healthy_import) =
     [''evaluations''] \<and>
   SetupGuide \<notin> set (events (import_main (import_only (Some ''key'') (Some ''space'') Evaluations)
     healthy_import))"
  using single_flag_runs_single_stage
    [of "Some ''http://localhost:6006''" Projects poor_export "Some ''key''" "Some ''space''"
        Evaluations healthy_import]
  by (simp add: stage_of_def)

text \<open>
  \<^bold>\<open>C4\<close> (as stated) fails for an answer in capitals: the reply is lower-cased before
  it is compared, so \<^verbatim>\<open>YES\<close>, which is neither \<^verbatim>\<open>yes\<close> nor \<^verbatim>\<open>y\<close>, lets the evaluations
  import run.
\<close>

theorem capital_answer_counterexample:
  "''traces'' \<in> set (successful (import_main (import_flags\<lparr>imp_all := True\<rparr>)
       (healthy_import\<lparr>ingestion_answer := ''YES''\<rparr>))) \<and>
   imp_all (import_flags\<lparr>imp_all := True\<rparr>) \<and>
   ingestion_answer (healthy_import\<lparr>ingestion_answer := ''YES''\<rparr>) \<notin> set [''yes'', ''y''] \<and>
   ''evaluations'' \<in> set (calls (import_main (import_flags\<lparr>imp_all := True\<rparr>)
       (healthy_import\<lparr>ingestion_answer := ''YES''\<rparr>)))"
  by code_simp

text \<open>
  \<^bold>\<open>C4\<close> (amended). In the import pipeline, whenever the traces stage succeeded in the
  current run and evaluations are requested, the operator is prompted, and for every
  answer that is not yes or y once lower-cased the evaluations import is skipped with a
  warning, while \<^verbatim>\<open>evaluations\<close> is added neither to the failed nor to the successful list.
\<close>

theorem declined_ingestion_prompt_skips_evaluations:
  assumes "provided (api_key a)" and "provided (space_id a)"
    and "''traces'' \<in> set (successful (import_main a e))"
    and "imp_all a \<or> imp_evaluations a"
  shows "ingestion_prompt \<in> set (events (import_main a e)) \<and>
         (\<not> confirms (ingestion_answer e) \<longrightarrow>
            ''evaluations'' \<notin> set (calls (import_main a e)) \<and>
            evaluations_skipped \<in> set (events (import_main a e)) \<and>
            ''evaluations'' \<notin> set (failed (import_main a e)) \<and>
            ''evaluations'' \<notin> set (successful (import_main a e)))"
proof -
  from traces_successful_iff [OF assms(1,2)] assms(3)
  have selected: "import_selected a" and traces: "traces_imported a e"
    by simp_all
  from traces assms(4) have shown: "prompted a e"
    by (simp add: prompted_def)
  have prompt: "ingestion_prompt \<in> set (events (import_main a e))"
    unfolding import_main_events [OF assms(1,2) selected]
    by (simp add: shown)
  have skip: "''evaluations'' \<notin> set (calls (import_main a e)) \<and>
      evaluations_skipped \<in> set (events (import_main a e)) \<and>
      ''evaluations'' \<notin> set (failed (import_main a e)) \<and>
      ''evaluations'' \<notin> set (successful (import_main a e))"
    if no: "\<not> confirms (ingestion_answer e)"
  proof -
    from shown no have gate: "declined a e"
      by (simp add: declined_def)
    have "''evaluations'' \<notin> set (calls (import_main a e))"
      unfolding import_main_selected [OF assms(1,2) selected]
      by (simp add: after_gate_flags(3,5,6) gate)
    moreover have "evaluations_skipped \<in> set (events (import_main a e))"
      unfolding import_main_events [OF assms(1,2) selected]
      by (simp add: shown no)
    moreover have "''evaluations'' \<notin> set (failed (import_main a e))"
      unfolding import_main_failed [OF assms(1,2) selected]
      by (simp add: after_gate_flags(3,4,5,6) gate)
    moreover have "''evaluations'' \<notin> set (successful (import_main a e))"
      unfolding import_main_successful [OF assms(1,2) selected]
      by (simp add: after_gate_flags(3,4,5,6) gate)
    ultimately show ?thesis
      by simp
  qed
  from prompt skip show ?thesis
    by simp
qed

theorem declined_ingestion_prompt_skips_evaluations_witness:
  "provided (api_key (import_flags\<lparr>imp_traces := True, imp_evaluations := True\<rparr>)) \<and>
   provided (space_id (import_flags\<lparr>imp_traces := True, imp_evaluations := True\<rparr>)) \<and>
   ''traces'' \<in> set (successful (import_main
       (import_flags\<lparr>imp_traces := True, imp_evaluations := True\<rparr>)
       (healthy_import\<lparr>ingestion_answer := ''not yet''\<rparr>))) \<and>
   imp_evaluations (import_flags\<lparr>imp_traces := True, imp_evaluations := True\<rparr>) \<and>
   \<not> confirms (ingestion_answer (healthy_import\<lparr>ingestion_answer := ''not yet''\<rparr>)) \<and>
   ''evaluations'' \<notin> set (calls (import_main
       (import_flags\<lparr>imp_traces := True, imp_evaluations := True\<rparr>)
       (healthy_import\<lparr>ingestion_answer := ''not yet''\<rparr>))) \<and>
   exit_code (import_main
       (import_flags\<lparr>imp_traces := True, imp_evaluations := True\<rparr>)
       (healthy_import\<lparr>ingestion_answer := ''not yet''\<rparr>)) = 0"
proof -
  let ?a = "import_flags\<lparr>imp_traces := True, imp_evaluations := True\<rparr>"
  let ?e = "healthy_import\<lparr>ingestion_answer := ''not yet''\<rparr>"
  have key: "provided (api_key ?a)" and space: "provided (space_id ?a)"
    by code_simp+
  have traces: "''traces'' \<in> set (successful (import_main ?a ?e))"
    by code_simp
  have requested: "imp_all ?a \<or> imp_evaluations ?a"
    by code_simp
  have no: "\<not> confirms (ingestion_answer ?e)"
    by code_simp
  have code: "exit_code (import_main ?a ?e) = 0"
    by code_simp
  from declined_ingestion_prompt_skips_evaluations [OF key space traces requested]
    key space traces requested no code
  show ?thesis
    by simp
qed

text \<open>
  \<^bold>\<open>C5\<close> (as stated) fails when \<^verbatim>\<open>--annotations\<close> accompanies \<^verbatim>\<open>--all\<close>: after the declined
  ingestion prompt the cleared all flag no longer selects the annotations block, but the
  annotations flag still does, so the setup guide runs and the annotations are imported.
\<close>

theorem all_with_annotations_flag_counterexample:
  "imp_all (import_flags\<lparr>imp_all := True, imp_annotations := True\<rparr>) \<and>
   ''traces'' \<in> set (successful (import_main
       (import_flags\<lparr>imp_all := True, imp_annotations := True\<rparr>)
       (healthy_import\<lparr>ingestion_answer := ''no''\<rparr>))) \<and>
   \<not> confirms (ingestion_answer (healthy_import\<lparr>ingestion_answer := ''no''\<rparr>)) \<and>
   SetupGuide \<in> set (events (import_main
       (import_flags\<lparr>imp_all := True, imp_annotations := True\<rparr>)
       (healthy_import\<lparr>ingestion_answer := ''no''\<rparr>))) \<and>
   ''annotations'' \<in> set (calls (import_main
       (import_flags\<lparr>imp_all := True, imp_annotations := True\<rparr>)
       (healthy_import\<lparr>ingestion_answer := ''no''\<rparr>)))"
  by code_simp

text \<open>
  \<^bold>\<open>C5\<close> (amended). In the import pipeline, when the run was requested via \<^verbatim>\<open>--all\<close> and
  the operator declines the ingestion prompt shown after the traces import, the all flag
  itself is cleared together with the evaluations flag. The evaluations stage is skipped,
  and so are the annotation setup guide and the annotations import unless their own
  flags were given as well: the annotations importer is called exactly when
  \<^verbatim>\<open>--annotations\<close> is set and the operator confirms the annotation prompt, and the setup
  guide runs exactly when \<^verbatim>\<open>--annotations\<close> or \<^verbatim>\<open>--setup-annotations\<close> is set.
\<close>

theorem declined_all_run_clears_all_flag:
  assumes "provided (api_key a)" and "provided (space_id a)"
    and "imp_all a"
    and "''traces'' \<in> set (successful (import_main a e))"
    and "\<not> confirms (ingestion_answer e)"
  shows "(''traces'' \<in> set (successful s) \<longrightarrow>
            \<not> imp_all (fst (ingestion_gate a e s)) \<and>
            \<not> imp_evaluations (fst (ingestion_gate a e s))) \<and>
         ''evaluations'' \<notin> set (calls (import_main a e)) \<and>
         (''annotations'' \<in> set (calls (import_main a e)) \<longleftrightarrow>
            imp_annotations a \<and> confirms (annotation_answer e)) \<and>
         (SetupGuide \<in> set (events (import_main a e)) \<longleftrightarrow>
            imp_annotations a \<or> imp_setup_annotations a)"
proof -
  from traces_successful_iff [OF assms(1,2)] assms(4)
  have selected: "import_selected a" and traces: "traces_imported a e"
    by simp_all
  from traces assms(3,5) have gate: "declined a e"
    by (simp add: declined_def prompted_def)
  have cleared: "''traces'' \<in> set (successful s) \<longrightarrow>
      \<not> imp_all (fst (ingestion_gate a e s)) \<and> \<not> imp_evaluations (fst (ingestion_gate a e s))"
    using assms(3,5) by (simp add: ingestion_gate_args)
  have evaluations: "''evaluations'' \<notin> set (calls (import_main a e))"
    unfolding import_main_selected [OF assms(1,2) selected]
    by (simp add: after_gate_flags(3,5,6) gate)
  have annotations: "''annotations'' \<in> set (calls (import_main a e)) \<longleftrightarrow>
      imp_annotations a \<and> confirms (annotation_answer e)"
    unfolding import_main_selected [OF assms(1,2) selected]
    by (simp add: after_gate_flags(3,5,6) gate)
  have guide: "SetupGuide \<in> set (events (import_main a e)) \<longleftrightarrow>
      imp_annotations a \<or> imp_setup_annotations a"
    unfolding import_main_guide [OF assms(1,2) selected]
    by (simp add: after_gate_flags(5) gate)
  from cleared evaluations annotations guide show ?thesis
    by simp
qed

theorem declined_all_run_clears_all_flag_witness:
  "provided (api_key (import_flags\<lparr>imp_all := True\<rparr>)) \<and>
   provided (space_id (import_flags\<lparr>imp_all := True\<rparr>)) \<and>
   imp_all (import_flags\<lparr>imp_all := True\<rparr>) \<and>
   ''traces'' \<in> set (successful (import_main (import_flags\<lparr>imp_all := True\<rparr>)
       (healthy_import\<lparr>ingestion_answer := ''no''\<rparr>))) \<and>
   \<not> confirms (ingestion_answer (healthy_import\<lparr>ingestion_answer := ''no''\<rparr>)) \<and>
   ''evaluations'' \<notin> set (calls (import_main (import_flags\<lparr>imp_all := True\<rparr>)
       (healthy_import\<lparr>ingestion_answer := ''no''\<rparr>))) \<and>
   ''annotations'' \<notin> set (calls (import_main (import_flags\<lparr>imp_all := True\<rparr>)
       (healthy_import\<lparr>ingestion_answer := ''no''\<rparr>))) \<and>
   SetupGuide \<notin> set (events (import_main (import_flags\<lparr>imp_all := True\<rparr>)
       (healthy_import\<lparr>ingestion_answer := ''no''\<rparr>)))"
proof -
  let ?a = "import_flags\<lparr>imp_all := True\<rparr>"
  let ?e = "healthy_import\<lparr>ingestion_answer := ''no''\<rparr>"
  have key: "provided (api_key ?a)" and space: "provided (space_id ?a)" and all: "imp_all ?a"
    by code_simp+
  have traces: "''traces'' \<in> set (successful (import_main ?a ?e))"
    by code_simp
  have no: "\<not> confirms (ingestion_answer ?e)"
    by code_simp
  have flags: "\<not> imp_annotations ?a \<and> \<not> imp_setup_annotations ?a"
    by code_simp
  from declined_all_run_clears_all_flag [OF key space all traces no] key space all traces no flags
  show ?thesis
    by simp
qed

lemma raising_importers:
  "raises (import_datasets e) \<Longrightarrow>
     import_datasets_wrapper e = (False, [Call ''datasets'', import_error_log ''datasets''])"
  "raises (import_prompts e) \<Longrightarrow>
     import_prompts_wrapper e = (False, [Call ''prompts'', import_error_log ''prompts''])"
  "raises (import_evaluations e) \<Longrightarrow>
     import_evaluations_wrapper e = (False, [Call ''evaluations'', import_error_log ''evaluations''])"
  "raises (import_annotations e) \<Longrightarrow>
     import_annotations_wrapper e = (False, [Call ''annotations'', import_error_log ''annotations''])"
  by (simp_all add: raises_def import_datasets_wrapper_def import_prompts_wrapper_def
        import_evaluations_wrapper_def import_annotations_wrapper_def bind_exn_def
        import_error_log_def split: sum.splits)

lemma raising_traces_logged:
  "raises (import_traces e) \<Longrightarrow> import_error_log ''traces'' \<in> set (snd (import_traces_wrapper e))"
  by (auto simp add: raises_def import_traces_wrapper_def traces_result_def import_error_log_def
        split: sum.splits results_file.splits prod.splits)

lemma raising_traces_lost:
  assumes "raises (import_traces e)"
    and "\<not> (\<exists>items. trace_results_file e = Loadable (PDict items) \<and>
              (\<exists>kv \<in> set items. processed_project kv))"
  shows "\<not> fst (import_traces_wrapper e)"
proof -
  from assms(1) obtain err where raised: "import_traces e = Inl err"
    by (cases "import_traces e") (simp_all add: raises_def)
  show ?thesis
  proof (cases "trace_results_file e")
    case (Loadable v)
    from import_traces_wrapper_loaded [OF raised Loadable] assms(2) Loadable show ?thesis
      by auto
  next
    case Missing
    then show ?thesis
      using import_traces_wrapper_lost [OF raised] by simp
  next
    case Unreadable
    then show ?thesis
      using import_traces_wrapper_lost [OF raised] by simp
  qed
qed

lemma raising_exporter:
  "raises (exporter_of env name) \<Longrightarrow> \<not> export_ok env name"
  by (cases "exporter_of env name") (simp_all add: raises_def export_ok_def bind_exn_def)

lemma export_error_logged:
  assumes "provided (base_url x)" and "name \<in> set (export_requested x)"
    and "raises (exporter_of env name)"
  shows "export_error_log name \<in> set (events (export_main x env))"
proof -
  from assms(2) have selected: "export_selected x"
    by (auto simp add: export_requested_def export_selected_def split: if_splits)
  have logged: "export_error_log n \<in> set (step_events n msg (bind_exn m body))" if "raises m"
    for n msg m and body :: "pyval \<Rightarrow> bool result"
    using that by (cases m) (simp_all add: raises_def step_events_def bind_exn_def)
  from export_requested_names [OF assms(2)] assms(2,3) show ?thesis
    unfolding export_main_events [OF assms(1) selected]
    by (auto simp add: export_requested_def exporter_of_def logged split: if_splits)
qed

lemma import_called_cases:
  assumes "provided (api_key a)" "provided (space_id a)"
    and "stage \<in> set (calls (import_main a e))"
  shows "import_selected a \<and>
         (stage = ''datasets'' \<and> (imp_all a \<or> imp_datasets a) \<or>
          stage = ''prompts'' \<and> (imp_all a \<or> imp_prompts a) \<or>
          stage = ''traces'' \<and> (imp_all a \<or> imp_traces a) \<or>
          stage = ''evaluations'' \<and>
            (imp_all (after_gate a e) \<or> imp_evaluations (after_gate a e)) \<or>
          stage = ''annotations'' \<and>
            (imp_all (after_gate a e) \<or> imp_annotations (after_gate a e)) \<and>
            confirms (annotation_answer e))"
proof (cases "import_selected a")
  case True
  from assms(3) show ?thesis
    unfolding import_main_selected [OF assms(1,2) True]
    by (auto simp add: True split: if_splits)
next
  case False
  with assms show ?thesis
    by (simp add: import_main_unselected)
qed

lemma import_first_stages_called:
  assumes "provided (api_key a)" "provided (space_id a)" "import_selected a"
  shows "\<forall>n \<in> set [''datasets'', ''prompts'', ''traces''].
           n \<in> set (import_requested a) \<longrightarrow> n \<in> set (calls (import_main a e))"
  unfolding import_main_selected [OF assms] import_requested_def
  by simp

lemma import_confirmed_calls:
  assumes "provided (api_key a)" "provided (space_id a)" "import_selected a"
    and "confirms (ingestion_answer e)" "confirms (annotation_answer e)"
  shows "calls (import_main a e) = import_entities a"
proof -
  from assms(4) have "after_gate a e = a"
    by (simp add: after_gate_def declined_def)
  then show ?thesis
    unfolding import_main_selected [OF assms(1-3)] import_entities_def import_requested_def
    by (simp add: assms(5))
qed

text \<open>
  \<^bold>\<open>C6\<close> (as stated) fails for the traces stage of the import pipeline: when the traces
  importer raises and the result manifest of an earlier attempt loads and lists an
  imported project, the stage is recorded as successful, not as failed.
\<close>

theorem recovered_traces_counterexample:
  "raises (importer_of (healthy_import\<lparr>import_traces := Inl (Raised ''timeout''),
       trace_results_file := Loadable trace_manifest\<rparr>) ''traces'') \<and>
   ''traces'' \<in> set (calls (import_main (import_flags\<lparr>imp_traces := True\<rparr>)
       (healthy_import\<lparr>import_traces := Inl (Raised ''timeout''),
          trace_results_file := Loadable trace_manifest\<rparr>))) \<and>
   ''traces'' \<notin> set (failed (import_main (import_flags\<lparr>imp_traces := True\<rparr>)
       (healthy_import\<lparr>import_traces := Inl (Raised ''timeout''),
          trace_results_file := Loadable trace_manifest\<rparr>))) \<and>
   ''traces'' \<in> set (successful (import_main (import_flags\<lparr>imp_traces := True\<rparr>)
       (healthy_import\<lparr>import_traces := Inl (Raised ''timeout''),
          trace_results_file := Loadable trace_manifest\<rparr>)))"
  by code_simp

text \<open>
  \<^bold>\<open>C6\<close> (amended). For every stage that is run and whose exporter or importer raises an
  exception, the exception is caught at the stage boundary and logged, and the name of
  the stage is recorded in the failed list, except that the traces stage of the import
  pipeline is not recorded as failed when the result manifest of an earlier attempt loads
  and lists a processed project. The run goes on: the export pipeline still calls every
  requested exporter; the import pipeline still calls the requested importers of
  datasets, prompts and traces, and calls every requested importer when the operator
  confirms the prompts.
\<close>

theorem raising_stage_is_recorded_and_run_continues:
  "(provided (base_url x) \<and> name \<in> set (export_requested x) \<and>
    raises (exporter_of env name) \<longrightarrow>
      name \<in> set (failed (export_main x env)) \<and>
      export_error_log name \<in> set (events (export_main x env)) \<and>
      calls (export_main x env) = export_requested x) \<and>
   (provided (api_key a) \<and> provided (space_id a) \<and>
    stage \<in> set (calls (import_main a e)) \<and> raises (importer_of e stage) \<and>
    (stage = ''traces'' \<longrightarrow>
       \<not> (\<exists>items. trace_results_file e = Loadable (PDict items) \<and>
             (\<exists>kv \<in> set items. processed_project kv))) \<longrightarrow>
      stage \<in> set (failed (import_main a e)) \<and>
      import_error_log stage \<in> set (events (import_main a e)) \<and>
      (\<forall>n \<in> set [''datasets'', ''prompts'', ''traces''].
         n \<in> set (import_requested a) \<longrightarrow> n \<in> set (calls (import_main a e))) \<and>
      (confirms (ingestion_answer e) \<and> confirms (annotation_answer e) \<longrightarrow>
         calls (import_main a e) = import_entities a))"
proof (intro conjI impI)
  assume h: "provided (base_url x) \<and> name \<in> set (export_requested x) \<and>
    raises (exporter_of env name)"
  then have url: "provided (base_url x)" and req: "name \<in> set (export_requested x)"
    and raised: "raises (exporter_of env name)"
    by simp_all
  from req have selected: "export_selected x"
    by (auto simp add: export_requested_def export_selected_def split: if_splits)
  from req raising_exporter [OF raised]
  show "name \<in> set (failed (export_main x env))"
    by (simp add: export_main_selected(3) [OF url selected])
  from export_error_logged [OF url req raised]
  show "export_error_log name \<in> set (events (export_main x env))" .
  from export_main_selected(1) [OF url selected]
  show "calls (export_main x env) = export_requested x" .
next
  assume h: "provided (api_key a) \<and> provided (space_id a) \<and>
    stage \<in> set (calls (import_main a e)) \<and> raises (importer_of e stage) \<and>
    (stage = ''traces'' \<longrightarrow>
       \<not> (\<exists>items. trace_results_file e = Loadable (PDict items) \<and>
             (\<exists>kv \<in> set items. processed_project kv)))"
  then have key: "provided (api_key a)" and space: "provided (space_id a)"
    and called: "stage \<in> set (calls (import_main a e))"
    and raised: "raises (importer_of e stage)"
    and lost: "stage = ''traces'' \<longrightarrow>
       \<not> (\<exists>items. trace_results_file e = Loadable (PDict items) \<and>
             (\<exists>kv \<in> set items. processed_project kv))"
    by simp_all
  from import_called_cases [OF key space called]
  have selected: "import_selected a"
    and which: "stage = ''datasets'' \<and> (imp_all a \<or> imp_datasets a) \<or>
          stage = ''prompts'' \<and> (imp_all a \<or> imp_prompts a) \<or>
          stage = ''traces'' \<and> (imp_all a \<or> imp_traces a) \<or>
          stage = ''evaluations'' \<and>
            (imp_all (after_gate a e) \<or> imp_evaluations (after_gate a e)) \<or>
          stage = ''annotations'' \<and>
            (imp_all (after_gate a e) \<or> imp_annotations (after_gate a e)) \<and>
            confirms (annotation_answer e)"
    by simp_all
  from which have recorded: "stage \<in> set (failed (import_main a e)) \<and>
      import_error_log stage \<in> set (events (import_main a e))"
  proof (elim disjE)
    assume "stage = ''datasets'' \<and> (imp_all a \<or> imp_datasets a)"
    then have datasets: "stage = ''datasets''" "imp_all a \<or> imp_datasets a"
      by simp_all
    from raised have "raises (import_datasets e)"
      by (simp add: datasets(1) importer_of_def)
    from raising_importers(1) [OF this] datasets(2) show ?thesis
      unfolding import_main_failed [OF key space selected]
        import_main_events [OF key space selected]
      by (simp add: datasets(1))
  next
    assume "stage = ''prompts'' \<and> (imp_all a \<or> imp_prompts a)"
    then have prompts: "stage = ''prompts''" "imp_all a \<or> imp_prompts a"
      by simp_all
    from raised have "raises (import_prompts e)"
      by (simp add: prompts(1) importer_of_def)
    from raising_importers(2) [OF this] prompts(2) show ?thesis
      unfolding import_main_failed [OF key space selected]
        import_main_events [OF key space selected]
      by (simp add: prompts(1))
  next
    assume "stage = ''traces'' \<and> (imp_all a \<or> imp_traces a)"
    then have traces: "stage = ''traces''" "imp_all a \<or> imp_traces a"
      by simp_all
    from raised have r: "raises (import_traces e)"
      by (simp add: traces(1) importer_of_def)
    from raising_traces_lost [OF r] lost traces(1) have "\<not> fst (import_traces_wrapper e)"
      by simp
    with raising_traces_logged [OF r] traces(2) show ?thesis
      unfolding import_main_failed [OF key space selected]
        import_main_events [OF key space selected]
      by (simp add: traces(1))
  next
    assume "stage = ''evaluations'' \<and>
      (imp_all (after_gate a e) \<or> imp_evaluations (after_gate a e))"
    then have evaluations: "stage = ''evaluations''"
      "imp_all (after_gate a e) \<or> imp_evaluations (after_gate a e)"
      by simp_all
    from raised have "raises (import_evaluations e)"
      by (simp add: evaluations(1) importer_of_def)
    from raising_importers(3) [OF this] evaluations(2) show ?thesis
      unfolding import_main_failed [OF key space selected]
        import_main_events [OF key space selected]
      by (simp add: evaluations(1))
  next
    assume "stage = ''annotations'' \<and>
      (imp_all (after_gate a e) \<or> imp_annotations (after_gate a e)) \<and>
      confirms (annotation_answer e)"
    then have annotations: "stage = ''annotations''"
      "imp_all (after_gate a e) \<or> imp_annotations (after_gate a e)"
      "confirms (annotation_answer e)"
      by simp_all
    from raised have "raises (import_annotations e)"
      by (simp add: annotations(1) importer_of_def)
    from raising_importers(4) [OF this] annotations(2,3) show ?thesis
      unfolding import_main_failed [OF key space selected]
        import_main_events [OF key space selected]
      by (simp add: annotations(1))
  qed
  from recorded show "stage \<in> set (failed (import_main a e))"
    by simp
  from recorded show "import_error_log stage \<in> set (events (import_main a e))"
    by simp
  from import_first_stages_called [OF key space selected]
  show "\<forall>n \<in> set [''datasets'', ''prompts'', ''traces''].
         n \<in> set (import_requested a) \<longrightarrow> n \<in> set (calls (import_main a e))" .
  assume "confirms (ingestion_answer e) \<and> confirms (annotation_answer e)"
  with import_confirmed_calls [OF key space selected]
  show "calls (import_main a e) = import_entities a"
    by simp
qed

theorem raising_stage_is_recorded_and_run_continues_witness:
  "provided (base_url (export_flags\<lparr>exp_all := True\<rparr>)) \<and>
   ''datasets'' \<in> set (export_requested (export_flags\<lparr>exp_all := True\<rparr>)) \<and>
   raises (exporter_of poor_export ''datasets'') \<and>
   ''datasets'' \<in> set (failed (export_main (export_flags\<lparr>exp_all := True\<rparr>) poor_export)) \<and>
   calls (export_main (export_flags\<lparr>exp_all := True\<rparr>) poor_export) =
     [''datasets'', ''prompts'', ''traces'', ''annotations'', ''evaluations''] \<and>
   provided (api_key (import_flags\<lparr>imp_all := True\<rparr>)) \<and>
   provided (space_id (import_flags\<lparr>imp_all := True\<rparr>)) \<and>
   ''datasets'' \<in> set (calls (import_main (import_flags\<lparr>imp_all := True\<rparr>)
       (healthy_import\<lparr>import_datasets := Inl (Raised ''boom'')\<rparr>))) \<and>
   raises (importer_of (healthy_import\<lparr>import_datasets := Inl (Raised ''boom'')\<rparr>) ''datasets'') \<and>
   ''datasets'' \<in> set (failed (import_main (import_flags\<lparr>imp_all := True\<rparr>)
       (healthy_import\<lparr>import_datasets := Inl (Raised ''boom'')\<rparr>))) \<and>
   calls (import_main (import_flags\<lparr>imp_all := True\<rparr>)
       (healthy_import\<lparr>import_datasets := Inl (Raised ''boom'')\<rparr>)) =
     [''datasets'', ''prompts'', ''traces'', ''evaluations'', ''annotations'']"
proof -
  let ?x = "export_flags\<lparr>exp_all := True\<rparr>"
  let ?a = "import_flags\<lparr>imp_all := True\<rparr>"
  let ?e = "healthy_import\<lparr>import_datasets := Inl (Raised ''boom'')\<rparr>"
  have x: "provided (base_url ?x) \<and> ''datasets'' \<in> set (export_requested ?x) \<and>
      raises (exporter_of poor_export ''datasets'')"
    by code_simp
  have requested: "export_requested ?x =
      [''datasets'', ''prompts'', ''traces'', ''annotations'', ''evaluations'']"
    by code_simp
  have a: "provided (api_key ?a) \<and> provided (space_id ?a) \<and>
      ''datasets'' \<in> set (calls (import_main ?a ?e)) \<and> raises (importer_of ?e ''datasets'')"
    by code_simp
  have yes: "confirms (ingestion_answer ?e) \<and> confirms (annotation_answer ?e)"
    by code_simp
  have entities: "import_entities ?a =
      [''datasets'', ''prompts'', ''traces'', ''evaluations'', ''annotations'']"
    by code_simp
  from raising_stage_is_recorded_and_run_continues
    [of ?x "''datasets''" poor_export ?a "''datasets''" ?e] x requested a yes entities
  show ?thesis
    by simp
qed

end
